theory Spec2Isabelle
  imports Main "HOL-Library.Char_ord" "HOL-Library.List_Lexorder" "HOL-Library.Product_Lexorder"
begin

section \<open>Bit model\<close>

text \<open>
  The parser of OpenNetlistView keeps every bit of a port, path or netname as a
  \<open>QString\<close>: the decimal number of a net, or one of the literals \<open>"0"\<close>, \<open>"1"\<close>
  (constants) and \<open>"x"\<close> (no connection). A bit sequence is a \<open>QStringList\<close>.
  \<open>QString\<close> and \<open>QStringList\<close> are compared lexicographically (by code unit, and element
  by element), which is the order \<open>HOL-Library.Char_ord\<close> and
  \<open>HOL-Library.List_Lexorder\<close> put on \<open>string\<close> and on lists.
\<close>

type_synonym QString = string
type_synonym QStringList = "string list"

text \<open>The test \<open>bit == "0" || bit == "1"\<close> of \<open>Parser::splitBits\<close>,
  \<open>Port::hasConstantBits\<close> and \<open>Parser::replaceConstBits\<close>.\<close>

definition isConstBit :: "QString \<Rightarrow> bool" where
  "isConstBit b = (b = ''0'' \<or> b = ''1'')"

section \<open>Ordered maps\<close>

text \<open>
  A \<open>std::map\<close> is an association list that is kept sorted by key, so that the list
  order is the iteration order of the map. \<open>map_assign\<close> is \<open>m[k] = v\<close>.
\<close>

type_synonym ('k, 'v) std_map = "('k \<times> 'v) list"

fun map_assign :: "'k::linorder \<Rightarrow> 'v \<Rightarrow> ('k, 'v) std_map \<Rightarrow> ('k, 'v) std_map" where
  "map_assign k v [] = [(k, v)]"
| "map_assign k v ((k', v') # m) =
     (if k < k' then (k, v) # (k', v') # m
      else if k = k' then (k, v) # m
      else (k', v') # map_assign k v m)"

definition map_find :: "('k, 'v) std_map \<Rightarrow> 'k \<Rightarrow> 'v option" where
  "map_find m k = map_of m k"

section \<open>Bit segmentation: \<open>Parser::splitBits\<close>\<close>

text \<open>
  The state of the scanning loop is the map built so far, \<open>currentBits\<close>, \<open>startIdx\<close>
  and \<open>lastWasConst\<close>. Indices are \<open>uint64_t\<close> in the source; a \<open>QStringList\<close> has fewer
  than \<open>2^63\<close> elements, so the sums below never wrap and are taken in \<open>nat\<close>. The
  subtraction \<open>startIdx + size - 1\<close> is only evaluated with \<open>size > 0\<close>.
\<close>

type_synonym splitBits_state =
  "((nat \<times> nat), QStringList) std_map \<times> QStringList \<times> nat \<times> bool"

fun splitBits_loop :: "QStringList \<Rightarrow> splitBits_state \<Rightarrow> splitBits_state" where
  "splitBits_loop [] st = st"
| "splitBits_loop (b # rest) (splitBitsMap, currentBits, startIdx, lastWasConst) =
     (let isConst = (b = ''0'' \<or> b = ''1'') in
      if currentBits = [] \<or> isConst = lastWasConst
      then splitBits_loop rest (splitBitsMap, currentBits @ [b], startIdx, isConst)
      else splitBits_loop rest
             (map_assign (startIdx, startIdx + length currentBits - 1) currentBits splitBitsMap,
              [b], startIdx + length currentBits, isConst))"

definition splitBits :: "QStringList \<Rightarrow> ((nat \<times> nat), QStringList) std_map" where
  "splitBits bits =
     (if bits = [] then []
      else
        (case splitBits_loop bits ([], [], 0, (hd bits = ''0'' \<or> hd bits = ''1'')) of
           (splitBitsMap, currentBits, startIdx, lastWasConst) \<Rightarrow>
             if currentBits \<noteq> []
             then map_assign (startIdx, startIdx + length currentBits - 1) currentBits splitBitsMap
             else splitBitsMap))"

section \<open>The Qt and standard-library operations the parser uses\<close>

text \<open>\<open>QList::indexOf\<close>: the index of the first equal element, or -1.\<close>

fun indexOf :: "'a list \<Rightarrow> 'a \<Rightarrow> int" where
  "indexOf [] x = -1"
| "indexOf (y # ys) x =
     (if y = x then 0 else (let i = indexOf ys x in if i = -1 then -1 else i + 1))"

text \<open>
  \<open>QString::number(n)\<close>, and \<open>QVariant::toString\<close> on an integer: the decimal numeral
  of \<open>n\<close> without leading zeros, with a minus sign before it when \<open>n\<close> is negative.
  Numbers of bits are machine integers in the source; they are values of \<open>int\<close> here and
  the one place where they can wrap says so.
\<close>

definition digit_char :: "int \<Rightarrow> char" where
  "digit_char d = ''0123456789'' ! nat d"

function decimal_digits :: "int \<Rightarrow> QString" where
  "decimal_digits n =
     (if n < 10 then [digit_char n]
      else decimal_digits (n div 10) @ [digit_char (n mod 10)])"
  by pat_completeness auto
termination decimal_digits
  by (relation "measure nat") auto

declare decimal_digits.simps [simp del]

definition QString_number :: "int \<Rightarrow> QString" where
  "QString_number n = (if n < 0 then CHR ''-'' # decimal_digits (- n) else decimal_digits n)"

text \<open>
  \<open>QString::toULong()\<close> on a 64-bit \<open>unsigned long\<close>: the value of a decimal numeral
  below \<open>2^64 = 18446744073709551616\<close>, and 0 when the conversion fails. Only strings of
  decimal digits are read as numbers here (a numeral with a minus sign is refused by Qt
  as well); the plus sign and the surrounding white space that Qt also accepts do not
  occur in the net numbers of a netlist.
\<close>

definition isDigit :: "char \<Rightarrow> bool" where
  "isDigit c = (c \<in> set ''0123456789'')"

definition digit_value :: "char \<Rightarrow> int" where
  "digit_value c = indexOf ''0123456789'' c"

definition decimal_value :: "QString \<Rightarrow> int" where
  "decimal_value s = foldl (\<lambda>a c. 10 * a + digit_value c) 0 s"

definition toULong :: "QString \<Rightarrow> int" where
  "toULong s =
     (if s \<noteq> [] \<and> (\<forall>c\<in>set s. isDigit c) \<and> decimal_value s < 18446744073709551616
      then decimal_value s else 0)"

text \<open>
  \<open>QList::mid(pos, length)\<close> as Qt 6 computes it: a position past the end gives the empty
  list, a negative position is clipped to 0 (shortening the length by as much), and a
  negative or too large length means "up to the end".
\<close>

definition mid :: "'a list \<Rightarrow> int \<Rightarrow> int \<Rightarrow> 'a list" where
  "mid xs pos len =
     (let n = int (length xs) in
      if pos > n then []
      else if pos < 0 then
        (if len < 0 \<or> len + pos \<ge> n then xs
         else if len + pos \<le> 0 then []
         else take (nat (len + pos)) xs)
      else if len < 0 \<or> len > n - pos then drop (nat pos) xs
      else take (nat len) (drop (nat pos) xs))"

text \<open>\<open>QList::remove(i, 1)\<close> with a valid index \<open>i\<close>.\<close>

definition removeAt :: "'a list \<Rightarrow> int \<Rightarrow> 'a list" where
  "removeAt xs i = take (nat i) xs @ drop (Suc (nat i)) xs"

text \<open>
  \<open>std::search(h.begin(), h.end(), e.begin(), e.end()) != h.end()\<close>: the needle occurs in
  the haystack as a contiguous block. An empty needle is found at \<open>h.begin()\<close>, which
  differs from \<open>h.end()\<close> exactly when the haystack is not empty.
\<close>

fun searchFound :: "'a list \<Rightarrow> 'a list \<Rightarrow> bool" where
  "searchFound [] needle = False"
| "searchFound (h # hs) needle =
     (take (length needle) (h # hs) = needle \<or> searchFound hs needle)"

section \<open>Data model: Port, Node, Path, Netname, Module\<close>

text \<open>
  Objects that the source shares through \<open>std::shared_ptr\<close> are addressed as follows.
  A Port is owned by the Module (boundary port) or by one Node; it is named by its place:
  \<open>ModulePort i\<close> is the \<open>i\<close>-th entry of \<open>Module::ports\<close>, \<open>NodePort n i\<close> the \<open>i\<close>-th port
  of the \<open>n\<close>-th node. Both vectors only grow, so the places are stable. Path objects live
  in a store (\<open>pathObjects\<close>, indexed by address); \<open>Module::paths\<close> is the vector of
  addresses, so that removing a path from the module erases a pointer and leaves the
  object to the ports that still refer to it. The fields that only serve drawing and
  routing (symbols, rectangles, routing references, the display value of a constant) are
  left out.
\<close>

text \<open>\<open>Port::EDirection\<close>; \<open>CONST\<close> is written \<open>CONST_dir\<close>, the plain word being syntax of the logic.\<close>

datatype EDirection = INPUT | OUTPUT | CONST_dir

datatype PortRef = ModulePort nat | NodePort nat nat

record Port =
  port_name :: QString
  port_direction :: EDirection
  port_bits :: QStringList
  port_path :: "nat option"
  port_parentNode :: "nat option"

record Node =
  node_name :: QString
  node_type :: QString
  node_ports :: "Port list"

record Path =
  path_name :: QString
  path_width :: nat
  path_bits :: QStringList
  hiddenName :: bool
  sigSource :: "PortRef option"
  sigDestinations :: "PortRef list"
  alternativeNames :: "QString list"

record Netname =
  netname_name :: QString
  netname_bits :: QStringList
  isHidden :: bool
  alternativeNetnames :: "QString list"

record Module =
  module_type :: QString
  ports :: "Port list"
  nodes :: "Node list"
  pathObjects :: "Path list"
  paths :: "nat list"
  netnames :: "Netname list"

subsection \<open>Port\<close>

text \<open>\<open>Port::Port(name, direction, bits)\<close>: no path, no parent node.\<close>

definition newPort :: "QString \<Rightarrow> EDirection \<Rightarrow> QStringList \<Rightarrow> Port" where
  "newPort name direction bits =
     \<lparr>port_name = name, port_direction = direction, port_bits = bits,
      port_path = None, port_parentNode = None\<rparr>"

definition Port_hasConstantBits :: "Port \<Rightarrow> bool" where
  "Port_hasConstantBits p = (\<exists>b\<in>set (port_bits p). b = ''1'' \<or> b = ''0'')"

definition Port_hasNoConnectBitsConnection :: "Port \<Rightarrow> bool" where
  "Port_hasNoConnectBitsConnection p = (\<exists>b\<in>set (port_bits p). b = ''x'')"

definition Port_getMaxBitNumber :: "Port \<Rightarrow> int" where
  "Port_getMaxBitNumber p =
     fold (\<lambda>b maxBitNumber.
             if b \<noteq> ''x'' \<and> b \<noteq> ''0'' \<and> b \<noteq> ''1''
             then max maxBitNumber (toULong b) else maxBitNumber)
          (port_bits p) 0"

text \<open>
  \<open>Port::replaceBits(pos, bits)\<close>: \<open>this->bits[i] = bits[i - start]\<close> for every \<open>i\<close> of the
  inclusive range \<open>pos\<close>. The parser only calls it with a range of \<open>splitBits\<close> and as
  many new bits as the range is long, so every index is valid.
\<close>

definition replaceBits :: "nat \<times> nat \<Rightarrow> QStringList \<Rightarrow> Port \<Rightarrow> Port" where
  "replaceBits pos bits p =
     p\<lparr>port_bits :=
         fold (\<lambda>i bs. bs[i := bits ! (i - fst pos)]) [fst pos..<Suc (snd pos)] (port_bits p)\<rparr>"

subsection \<open>Path\<close>

text \<open>\<open>Path::Path(name, bits, hiddenName)\<close>.\<close>

definition newPath :: "QString \<Rightarrow> QStringList \<Rightarrow> bool \<Rightarrow> Path" where
  "newPath name bits hidden =
     \<lparr>path_name = name, path_width = length bits, path_bits = bits, hiddenName = hidden,
      sigSource = None, sigDestinations = [], alternativeNames = []\<rparr>"

text \<open>
  \<open>Path::setSigSource(sigSource, allowOverwrite)\<close>; the pointer passed may be null
  (\<open>None\<close>).
\<close>

definition setSigSource :: "PortRef option \<Rightarrow> bool \<Rightarrow> Path \<Rightarrow> Path" where
  "setSigSource src allowOverwrite p =
     (if sigSource p \<noteq> None \<and> \<not> allowOverwrite then p
      else p\<lparr>sigSource := src\<rparr>)"

definition addSigDestination :: "PortRef \<Rightarrow> Path \<Rightarrow> Path" where
  "addSigDestination dst p = p\<lparr>sigDestinations := sigDestinations p @ [dst]\<rparr>"

definition Path_hasNoConnectBitsConnection :: "Path \<Rightarrow> bool" where
  "Path_hasNoConnectBitsConnection p = (\<exists>b\<in>set (path_bits p). b = ''x'')"

definition Path_hasConnection :: "Path \<Rightarrow> bool" where
  "Path_hasConnection p =
     ((sigSource p \<noteq> None \<and> sigDestinations p \<noteq> []) \<or> Path_hasNoConnectBitsConnection p)"

definition Path_addAlternativeName :: "QString \<Rightarrow> Path \<Rightarrow> Path" where
  "Path_addAlternativeName name p = p\<lparr>alternativeNames := alternativeNames p @ [name]\<rparr>"

subsection \<open>Module\<close>

definition newModule :: "QString \<Rightarrow> Module" where
  "newModule type =
     \<lparr>module_type = type, ports = [], nodes = [], pathObjects = [], paths = [], netnames = []\<rparr>"

fun getPort :: "Module \<Rightarrow> PortRef \<Rightarrow> Port" where
  "getPort m (ModulePort i) = ports m ! i"
| "getPort m (NodePort n i) = node_ports (nodes m ! n) ! i"

text \<open>A method call on the Port object that a reference names.\<close>

fun updatePort :: "(Port \<Rightarrow> Port) \<Rightarrow> PortRef \<Rightarrow> Module \<Rightarrow> Module" where
  "updatePort f (ModulePort i) m = m\<lparr>ports := (ports m)[i := f (ports m ! i)]\<rparr>"
| "updatePort f (NodePort n i) m =
     m\<lparr>nodes := (nodes m)[n := (nodes m ! n)
          \<lparr>node_ports := (node_ports (nodes m ! n))[i := f (node_ports (nodes m ! n) ! i)]\<rparr>]\<rparr>"

definition addPort :: "Port \<Rightarrow> Module \<Rightarrow> Module" where
  "addPort p m = m\<lparr>ports := ports m @ [p]\<rparr>"

definition addNode :: "Node \<Rightarrow> Module \<Rightarrow> Module" where
  "addNode n m = m\<lparr>nodes := nodes m @ [n]\<rparr>"

definition addNetname :: "Netname \<Rightarrow> Module \<Rightarrow> Module" where
  "addNetname n m = m\<lparr>netnames := netnames m @ [n]\<rparr>"

text \<open>\<open>Module::addPath\<close> takes the address of a path object of the store.\<close>

definition addPath :: "nat \<Rightarrow> Module \<Rightarrow> Module" where
  "addPath a m = m\<lparr>paths := paths m @ [a]\<rparr>"

text \<open>\<open>Module::removePath\<close>: \<open>std::find\<close> and erase, that is, the first equal pointer.\<close>

definition removePath :: "nat \<Rightarrow> Module \<Rightarrow> Module" where
  "removePath a m = m\<lparr>paths := remove1 a (paths m)\<rparr>"

definition Module_getMaxBitNumber :: "Module \<Rightarrow> int" where
  "Module_getMaxBitNumber m =
     fold (\<lambda>n maxBitNumber.
             fold (\<lambda>p maxBitNumber. max maxBitNumber (Port_getMaxBitNumber p))
                  (node_ports n) maxBitNumber)
          (nodes m)
          (fold (\<lambda>p maxBitNumber. max maxBitNumber (Port_getMaxBitNumber p)) (ports m) 0)"

definition getNetnameByBits :: "Module \<Rightarrow> QStringList \<Rightarrow> Netname option" where
  "getNetnameByBits m bits = find (\<lambda>netname. netname_bits netname = bits) (netnames m)"

definition getPathByBits :: "Module \<Rightarrow> QStringList \<Rightarrow> nat option" where
  "getPathByBits m bits = find (\<lambda>a. path_bits (pathObjects m ! a) = bits) (paths m)"

definition hasModuleInvalidPaths :: "Module \<Rightarrow> bool" where
  "hasModuleInvalidPaths m =
     (\<not> (\<forall>a\<in>set (paths m). Path_hasConnection (pathObjects m ! a)) \<or> paths m = [])"

definition isEmpty :: "Module \<Rightarrow> bool" where
  "isEmpty m = (paths m = [] \<and> nodes m = [] \<and> ports m = [])"

section \<open>Signal resolver: \<open>Parser::createSplitJoin\<close>\<close>

text \<open>\<open>Parser::indexOfContains\<close>: the index of the first list that contains the element as
  a contiguous block (\<open>std::find_if\<close> over \<open>std::search\<close>), or -1.\<close>

fun indexOfContains :: "'a list list \<Rightarrow> 'a list \<Rightarrow> int" where
  "indexOfContains [] element = -1"
| "indexOfContains (haystack # rest) element =
     (if searchFound haystack element then 0
      else (let i = indexOfContains rest element in if i = -1 then -1 else i + 1))"

text \<open>\<open>Parser::addToMap\<close> on \<open>std::map<QStringList, QList<QStringList>>\<close>.\<close>

type_synonym splitJoinInfo = "(QStringList, QStringList list) std_map"

definition addToMap :: "splitJoinInfo \<Rightarrow> QStringList \<Rightarrow> QStringList \<Rightarrow> splitJoinInfo" where
  "addToMap m key val =
     (case map_find m key of
        None \<Rightarrow> map_assign key [val] m
      | Some vals \<Rightarrow> map_assign key (vals @ [val]) m)"

text \<open>
  \<open>struct Task\<close>, and the four containers that \<open>createSplitJoin\<close> receives by
  reference and updates in place.
\<close>

record Task =
  startIdx :: int
  endIdx :: int
  querryBits :: QStringList

record SplitJoinState =
  srcPorts :: "QStringList list"
  destPorts :: "QStringList list"
  splitInfo :: splitJoinInfo
  joinInfo :: splitJoinInfo

text \<open>
  The three tasks the function pushes: the seed \<open>{startIdx, endIdx, toSolve.mid(startIdx,
  endIdx - startIdx)}\<close>, the remainder \<open>{current.endIdx, toSolve.length(),
  toSolve.mid(current.endIdx, toSolve.length() - current.endIdx)}\<close> after a match, and
  the query shortened by its last bit \<open>{current.startIdx, current.startIdx +
  querryBits.length() - 1, toSolve.mid(current.startIdx, querryBits.length() - 1)}\<close>.
  Indices are \<open>int64_t\<close>; they stay within the length of a list, so they are taken in
  \<open>int\<close>.
\<close>

definition remainderTask :: "QStringList \<Rightarrow> Task \<Rightarrow> Task" where
  "remainderTask toSolve current =
     \<lparr>startIdx = endIdx current, endIdx = int (length toSolve),
      querryBits = mid toSolve (endIdx current) (int (length toSolve) - endIdx current)\<rparr>"

definition shrinkTask :: "QStringList \<Rightarrow> Task \<Rightarrow> Task" where
  "shrinkTask toSolve current =
     \<lparr>startIdx = startIdx current,
      endIdx = startIdx current + int (length (querryBits current)) - 1,
      querryBits = mid toSolve (startIdx current) (int (length (querryBits current)) - 1)\<rparr>"

definition initialTask :: "QStringList \<Rightarrow> int \<Rightarrow> int \<Rightarrow> Task" where
  "initialTask toSolve startIndex endIndex =
     \<lparr>startIdx = startIndex, endIdx = endIndex,
      querryBits = mid toSolve startIndex (endIndex - startIndex)\<rparr>"

text \<open>
  The head of every iteration: \<open>destIdx = destPorts.indexOf(toSolve)\<close>, and the removal
  of that entry when there is one.
\<close>

definition claimDest :: "QStringList \<Rightarrow> SplitJoinState \<Rightarrow> SplitJoinState" where
  "claimDest toSolve st =
     (let destIdx = indexOf (destPorts st) toSolve in
      if destIdx \<noteq> -1 then st\<lparr>destPorts := removeAt (destPorts st) destIdx\<rparr> else st)"

text \<open>\<open>if(querryBits != toSolve) addToMap(joinInfo, toSolve, querryBits)\<close>.\<close>

definition noteJoin :: "QStringList \<Rightarrow> QStringList \<Rightarrow> SplitJoinState \<Rightarrow> SplitJoinState" where
  "noteJoin toSolve q st =
     (if q \<noteq> toSolve then st\<lparr>joinInfo := addToMap (joinInfo st) toSolve q\<rparr> else st)"

text \<open>
  The \<open>while(!tasks.empty())\<close> loop. The stack is a list with its top at the head. In
  the third case the function calls itself on the query with a fresh empty
  \<open>tmpDstPorts\<close>; the sources and the two maps come back changed, the scratch list is
  dropped.
\<close>

function createSplitJoin_loop :: "QStringList \<Rightarrow> Task list \<Rightarrow> SplitJoinState \<Rightarrow> SplitJoinState" where
  "createSplitJoin_loop toSolve [] st = st"
| "createSplitJoin_loop toSolve (current # tasks) st =
     (let st1 = claimDest toSolve st in
      if startIdx current \<ge> int (length toSolve) \<or> endIdx current - startIdx current < 1
      then createSplitJoin_loop toSolve tasks st1
      else if querryBits current \<in> set (srcPorts st1)
      then createSplitJoin_loop toSolve (remainderTask toSolve current # tasks)
             (noteJoin toSolve (querryBits current) st1)
      else if indexOfContains (srcPorts st1) (querryBits current) \<noteq> -1
      then createSplitJoin_loop toSolve (remainderTask toSolve current # tasks)
             ((noteJoin toSolve (querryBits current) st1)
                \<lparr>srcPorts := srcPorts st1 @ [querryBits current],
                 splitInfo := addToMap (splitInfo st1)
                     (srcPorts st1 ! nat (indexOfContains (srcPorts st1) (querryBits current)))
                     (querryBits current)\<rparr>)
      else if indexOfContains (destPorts st1) (querryBits current) \<noteq> -1
      then (let inner = createSplitJoin_loop (querryBits current)
                          [initialTask (querryBits current) 0 (int (length (querryBits current)))]
                          ((noteJoin toSolve (querryBits current) st1)\<lparr>destPorts := []\<rparr>);
                st3 = inner\<lparr>srcPorts := srcPorts inner @ [querryBits current],
                            destPorts := destPorts st1\<rparr>
            in if searchFound toSolve (querryBits current)
               then createSplitJoin_loop toSolve (remainderTask toSolve current # tasks) st3
               else createSplitJoin_loop toSolve tasks st3)
      else createSplitJoin_loop toSolve (shrinkTask toSolve current # tasks) st1)"
  by pat_completeness auto

text \<open>
  Termination. A task weighs 1 when the loop drops it, and otherwise more the further its
  start is from the end of \<open>toSolve\<close> and the longer its query; every iteration
  replaces the top task by nothing or by a lighter one, and the nested call runs on an
  empty list of destinations, where no further nested call can start.
\<close>

definition taskWeight :: "QStringList \<Rightarrow> Task \<Rightarrow> nat" where
  "taskWeight toSolve t =
     (if startIdx t \<ge> int (length toSolve) \<or> endIdx t - startIdx t < 1 then 1
      else 2 + nat (int (length toSolve) - startIdx t) * (length toSolve + 2)
             + min (length (querryBits t)) (length toSolve + 1))"

lemma length_mid_le: "length (mid xs pos len) \<le> length xs"
  by (auto simp: mid_def Let_def)

lemma length_mid_le_len: "0 \<le> len \<Longrightarrow> int (length (mid xs pos len)) \<le> len"
  by (auto simp: mid_def Let_def)

lemma indexOfContains_Nil: "indexOfContains [] q = -1"
  by simp

lemma destPorts_claimDest_Nil: "destPorts (claimDest toSolve st) \<noteq> [] \<Longrightarrow> destPorts st \<noteq> []"
  by (auto simp: claimDest_def Let_def removeAt_def)

lemma indexOfContains_found_nonempty: "indexOfContains xs q \<noteq> -1 \<Longrightarrow> xs \<noteq> []"
  by auto

lemma taskWeight_pos: "0 < taskWeight toSolve t"
  by (simp add: taskWeight_def)

lemma taskWeight_remainder:
  assumes "\<not> (startIdx t \<ge> int (length toSolve) \<or> endIdx t - startIdx t < 1)"
  shows "taskWeight toSolve (remainderTask toSolve t) < taskWeight toSolve t"
proof (cases "endIdx t \<ge> int (length toSolve)")
  case True
  then show ?thesis using assms by (simp add: taskWeight_def remainderTask_def)
next
  case False
  let ?L = "length toSolve"
  let ?a = "nat (int ?L - endIdx t)"
  let ?b = "nat (int ?L - startIdx t)"
  have "?a + 1 \<le> ?b" using assms False by linarith
  then have "(?a + 1) * (?L + 2) \<le> ?b * (?L + 2)"
    by (rule mult_le_mono1)
  then have le: "?a * (?L + 2) + (?L + 2) \<le> ?b * (?L + 2)"
    by (simp add: algebra_simps)
  have w1: "taskWeight toSolve (remainderTask toSolve t) \<le> 2 + ?a * (?L + 2) + (?L + 1)"
    using False by (simp add: taskWeight_def remainderTask_def)
  have w2: "taskWeight toSolve t \<ge> 2 + ?b * (?L + 2)"
    using assms by (simp add: taskWeight_def)
  from le w1 w2 show ?thesis by linarith
qed

lemma taskWeight_shrink:
  assumes "\<not> (startIdx t \<ge> int (length toSolve) \<or> endIdx t - startIdx t < 1)"
  shows "taskWeight toSolve (shrinkTask toSolve t) < taskWeight toSolve t"
proof (cases "length (querryBits t) \<le> 1")
  case True
  then show ?thesis using assms by (simp add: taskWeight_def shrinkTask_def)
next
  case False
  let ?L = "length toSolve"
  let ?q' = "mid toSolve (startIdx t) (int (length (querryBits t)) - 1)"
  have "0 \<le> int (length (querryBits t)) - 1" using False by linarith
  then have a: "int (length ?q') \<le> int (length (querryBits t)) - 1"
    by (rule length_mid_le_len)
  have b: "length ?q' \<le> ?L" by (rule length_mid_le)
  have m: "min (length ?q') (?L + 1) < min (length (querryBits t)) (?L + 1)"
    using a b False by linarith
  have ne: "\<not> int (length (querryBits t)) - 1 < 1" using False by linarith
  have w1: "taskWeight toSolve (shrinkTask toSolve t) =
      2 + nat (int ?L - startIdx t) * (?L + 2) + min (length ?q') (?L + 1)"
    using assms ne by (simp add: taskWeight_def shrinkTask_def)
  have w2: "taskWeight toSolve t =
      2 + nat (int ?L - startIdx t) * (?L + 2) + min (length (querryBits t)) (?L + 1)"
    using assms by (simp add: taskWeight_def)
  from m w1 w2 show ?thesis by linarith
qed

lemma createSplitJoin_loop_total: "All createSplitJoin_loop_dom"
proof (relation "measures [\<lambda>(toSolve, tasks, st). if destPorts st = [] then 0 else 1,
                          \<lambda>(toSolve, tasks, st). sum_list (map (taskWeight toSolve) tasks)]",
       goal_cases)
  case 1 show ?case by simp
next
  case (2 toSolve current tasks st x)
  then show ?case using taskWeight_pos[where toSolve=toSolve and t=current]
    by (auto simp: claimDest_def Let_def removeAt_def)
next
  case (3 toSolve current tasks st x)
  then show ?case using taskWeight_remainder[where toSolve=toSolve and t=current]
    by (auto simp: claimDest_def noteJoin_def Let_def removeAt_def)
next
  case (4 toSolve current tasks st x)
  then show ?case using taskWeight_remainder[where toSolve=toSolve and t=current]
    by (auto simp: claimDest_def noteJoin_def Let_def removeAt_def)
next
  case (5 toSolve current tasks st x)
  then have "destPorts (claimDest toSolve st) \<noteq> []"
    using indexOfContains_found_nonempty by blast
  then have "destPorts st \<noteq> []" by (rule destPorts_claimDest_Nil)
  then show ?case by simp
next
  case (6 toSolve current tasks st x xa xb)
  then show ?case using taskWeight_remainder[where toSolve=toSolve and t=current] destPorts_claimDest_Nil[where toSolve=toSolve and st=st]
    by auto
next
  case (7 toSolve current tasks st x xa xb)
  then show ?case using taskWeight_pos[where toSolve=toSolve and t=current] destPorts_claimDest_Nil[where toSolve=toSolve and st=st]
    by auto
next
  case (8 toSolve current tasks st x)
  then show ?case using taskWeight_shrink[where toSolve=toSolve and t=current]
    by (auto simp: claimDest_def Let_def removeAt_def)
qed

termination createSplitJoin_loop
  by (rule createSplitJoin_loop_total)

declare createSplitJoin_loop.simps [simp del]

text \<open>\<open>Parser::createSplitJoin\<close> itself: seed the stack and run the loop.\<close>

definition createSplitJoin ::
  "SplitJoinState \<Rightarrow> QStringList \<Rightarrow> int \<Rightarrow> int \<Rightarrow> SplitJoinState" where
  "createSplitJoin st toSolve startIndex endIndex =
     createSplitJoin_loop toSolve [initialTask toSolve startIndex endIndex] st"

section \<open>The parser\<close>

text \<open>
  The members of \<open>Parser\<close> that the pipeline reads and writes: the diagram, the module
  under construction and the translation table of the constant materializer. The table
  is a member of the parser and is never cleared, so it is carried from one module to
  the next. \<open>currentModule\<close> is a null pointer before \<open>parse\<close> creates the first module;
  every function below runs after that.
\<close>

record Diagram =
  modules :: "Module list"
  topModule :: "nat option"

record Parser =
  diagram :: Diagram
  currentModule :: Module
  constToNonConstPortBits :: "(QStringList, QStringList) std_map"

definition newParser :: Parser where
  "newParser =
     \<lparr>diagram = \<lparr>modules = [], topModule = None\<rparr>,
      currentModule = newModule [],
      constToNonConstPortBits = []\<rparr>"

subsection \<open>Constant materializer: \<open>Parser::replaceConstBits\<close>\<close>

text \<open>
  The inner \<open>for\<close> loop that numbers the bits of one constant run: \<open>maxBitNumber++\<close> on
  an \<open>unsigned long long\<close> (it wraps at \<open>2^64 = 18446744073709551616\<close>), then
  \<open>QString::number(maxBitNumber)\<close>.
\<close>

fun generateBits :: "nat \<Rightarrow> int \<Rightarrow> QStringList \<Rightarrow> int \<times> QStringList" where
  "generateBits 0 maxBitNumber bits = (maxBitNumber, bits)"
| "generateBits (Suc k) maxBitNumber bits =
     generateBits k ((maxBitNumber + 1) mod 18446744073709551616)
       (bits @ [QString_number ((maxBitNumber + 1) mod 18446744073709551616)])"

text \<open>\<open>Parser::createConstantPort\<close> (the display value is not modelled).\<close>

definition createConstantPort :: "QString \<Rightarrow> QStringList \<Rightarrow> QStringList \<Rightarrow> Port" where
  "createConstantPort name bits constValue = newPort name CONST_dir bits"

text \<open>
  The body of the loop over the runs of one port: a run that does not start with a
  constant is skipped; for a constant run the new bits are generated, the constant port
  is added to the ports of the module, and the run is overwritten in the port.
\<close>

definition replaceConstRun ::
  "PortRef \<Rightarrow> (nat \<times> nat) \<times> QStringList \<Rightarrow> Module \<times> int \<Rightarrow> Module \<times> int" where
  "replaceConstRun srcPort run st =
     (case (run, st) of ((pos, bitValue), (m, maxBitNumber)) \<Rightarrow>
        if bitValue ! 0 \<noteq> ''0'' \<and> bitValue ! 0 \<noteq> ''1'' then (m, maxBitNumber)
        else
          (case generateBits (length bitValue) maxBitNumber [] of
             (maxBitNumber', bits) \<Rightarrow>
               (updatePort (replaceBits pos bits) srcPort
                  (addPort
                     (createConstantPort (port_name (getPort m srcPort) @ ''_const'') bits bitValue)
                     m),
                maxBitNumber')))"

text \<open>The body of the loop over the collected ports.\<close>

definition replaceConstPort :: "PortRef \<Rightarrow> Parser \<times> int \<Rightarrow> Parser \<times> int" where
  "replaceConstPort srcPort st =
     (case st of (P, maxBitNumber) \<Rightarrow>
        (let originalBits = port_bits (getPort (currentModule P) srcPort);
             splitBitsMap = splitBits originalBits
         in case fold (replaceConstRun srcPort) splitBitsMap (currentModule P, maxBitNumber) of
              (m, maxBitNumber') \<Rightarrow>
                (P\<lparr>currentModule := m,
                   constToNonConstPortBits :=
                     map_assign originalBits (port_bits (getPort m srcPort))
                       (constToNonConstPortBits P)\<rparr>,
                 maxBitNumber')))"

text \<open>
  The ports that are rewritten: the OUTPUT ports of the module and the INPUT ports of its
  nodes that have a constant bit, in this order.
\<close>

definition constPortsOf :: "Module \<Rightarrow> PortRef list" where
  "constPortsOf m =
     [ModulePort i. i \<leftarrow> [0..<length (ports m)],
        port_direction (ports m ! i) = OUTPUT \<and> Port_hasConstantBits (ports m ! i)] @
     [NodePort n i. n \<leftarrow> [0..<length (nodes m)],
        i \<leftarrow> [0..<length (node_ports (nodes m ! n))],
        port_direction (node_ports (nodes m ! n) ! i) = INPUT \<and>
        Port_hasConstantBits (node_ports (nodes m ! n) ! i)]"

definition replaceConstBits :: "Parser \<Rightarrow> Parser" where
  "replaceConstBits P =
     fst (fold replaceConstPort (constPortsOf (currentModule P))
            (P, Module_getMaxBitNumber (currentModule P)))"

subsection \<open>Node synthesizer: \<open>createJoinNodes\<close> and \<open>createSplitNodes\<close>\<close>

text \<open>
  Both functions walk their map in key order with a running index. The ports of a new
  node get the node as parent; the node is the next entry of \<open>Module::nodes\<close>.
\<close>

definition YosysJson_splitType :: QString where
  "YosysJson_splitType = ''split''"

definition YosysJson_joinType :: QString where
  "YosysJson_joinType = ''join''"

definition setParentNode :: "nat \<Rightarrow> Port \<Rightarrow> Port" where
  "setParentNode n p = p\<lparr>port_parentNode := Some n\<rparr>"

text \<open>A node with its ports, each port pointing back to the node.\<close>

definition addNodeWithPorts :: "QString \<Rightarrow> QString \<Rightarrow> Port list \<Rightarrow> Module \<Rightarrow> Module" where
  "addNodeWithPorts name type nodePorts m =
     addNode \<lparr>node_name = name, node_type = type,
              node_ports = map (setParentNode (length (nodes m))) nodePorts\<rparr> m"

definition createSplitNode ::
  "QStringList \<times> QStringList list \<Rightarrow> Module \<times> int \<Rightarrow> Module \<times> int" where
  "createSplitNode entry st =
     (case (entry, st) of ((srcBits, destBits), (m, splitIndex)) \<Rightarrow>
        (addNodeWithPorts (''split'' @ QString_number splitIndex) YosysJson_splitType
           (newPort ''in'' INPUT srcBits #
            map (\<lambda>(index, destBit). newPort (''out'' @ QString_number (int index)) OUTPUT destBit)
                (zip [0..<length destBits] destBits))
           m,
         splitIndex + 1))"

definition createSplitNodes :: "splitJoinInfo \<Rightarrow> Parser \<Rightarrow> Parser" where
  "createSplitNodes splitInfoMap P =
     P\<lparr>currentModule := fst (fold createSplitNode splitInfoMap (currentModule P, 0))\<rparr>"

definition createJoinNode ::
  "QStringList \<times> QStringList list \<Rightarrow> Module \<times> int \<Rightarrow> Module \<times> int" where
  "createJoinNode entry st =
     (case (entry, st) of ((srcBits, destBits), (m, joinIndex)) \<Rightarrow>
        (addNodeWithPorts (''join'' @ QString_number joinIndex) YosysJson_joinType
           (map (\<lambda>(index, destBit). newPort (''in'' @ QString_number (int index)) INPUT destBit)
                (zip [0..<length destBits] destBits) @
            [newPort ''out'' OUTPUT srcBits])
           m,
         joinIndex + 1))"

definition createJoinNodes :: "splitJoinInfo \<Rightarrow> Parser \<Rightarrow> Parser" where
  "createJoinNodes joinInfoMap P =
     P\<lparr>currentModule := fst (fold createJoinNode joinInfoMap (currentModule P, 0))\<rparr>"

subsection \<open>Signal stitcher: \<open>createSignalConnections\<close>\<close>

definition setPath :: "nat \<Rightarrow> Port \<Rightarrow> Port" where
  "setPath a p = p\<lparr>port_path := Some a\<rparr>"

text \<open>
  The name and the hidden flag that \<open>connectSignalSrcConnections\<close> computes for one
  source port. For a CONST port the bits of the port are looked up as a key of the
  translation table, and the netname is searched by the value found there.
\<close>

definition pathNameOf :: "Parser \<Rightarrow> Port \<Rightarrow> QString \<times> bool" where
  "pathNameOf P srcPort =
     (if port_direction srcPort = CONST_dir
      then (case map_find (constToNonConstPortBits P) (port_bits srcPort) of
              None \<Rightarrow> (port_name srcPort @ ''_sig'', True)
            | Some second \<Rightarrow>
                (case getNetnameByBits (currentModule P) second of
                   None \<Rightarrow> (port_name srcPort @ ''_sig'', True)
                 | Some netname \<Rightarrow> (netname_name netname, isHidden netname)))
      else (case getNetnameByBits (currentModule P) (port_bits srcPort) of
              None \<Rightarrow> (port_name srcPort @ ''_sig'', True)
            | Some netname \<Rightarrow> (netname_name netname, isHidden netname)))"

text \<open>
  The body of the loop of \<open>connectSignalSrcConnections\<close>: a new path object (at the next
  free address of the store) with the bits of the port, the port as its source, the path
  as the path of the port, and the path added to the module.
\<close>

definition connectSignalSrc :: "PortRef \<Rightarrow> Parser \<Rightarrow> Parser" where
  "connectSignalSrc srcPort P =
     (let m = currentModule P;
          port = getPort m srcPort;
          path = setSigSource (Some srcPort) False
                   (newPath (fst (pathNameOf P port)) (port_bits port) (snd (pathNameOf P port)));
          a = length (pathObjects m)
      in P\<lparr>currentModule :=
              addPath a (updatePort (setPath a) srcPort (m\<lparr>pathObjects := pathObjects m @ [path]\<rparr>))\<rparr>)"

definition connectSignalSrcConnections :: "PortRef list \<Rightarrow> Parser \<Rightarrow> Parser" where
  "connectSignalSrcConnections srcPortRefs P = fold connectSignalSrc srcPortRefs P"

text \<open>
  The body of the loop of \<open>connectSignalDestConnections\<close>: the first path of the module
  with the bits of the port, if there is one, gets the port as a destination.
\<close>

definition connectSignalDest :: "PortRef \<Rightarrow> Parser \<Rightarrow> Parser" where
  "connectSignalDest destPort P =
     (let m = currentModule P in
      case getPathByBits m (port_bits (getPort m destPort)) of
        None \<Rightarrow> P
      | Some a \<Rightarrow>
          P\<lparr>currentModule :=
              updatePort (setPath a) destPort
                (m\<lparr>pathObjects := (pathObjects m)[a := addSigDestination destPort (pathObjects m ! a)]\<rparr>)\<rparr>)"

definition connectSignalDestConnections :: "PortRef list \<Rightarrow> Parser \<Rightarrow> Parser" where
  "connectSignalDestConnections destPortRefs P = fold connectSignalDest destPortRefs P"

text \<open>
  The two pools of \<open>createSignalConnections\<close>: module ports of direction INPUT or CONST
  and node ports of direction OUTPUT are sources, all other ports are destinations.
\<close>

definition signalSrcPorts :: "Module \<Rightarrow> PortRef list" where
  "signalSrcPorts m =
     [ModulePort i. i \<leftarrow> [0..<length (ports m)],
        port_direction (ports m ! i) = INPUT \<or> port_direction (ports m ! i) = CONST_dir] @
     [NodePort n i. n \<leftarrow> [0..<length (nodes m)],
        i \<leftarrow> [0..<length (node_ports (nodes m ! n))],
        port_direction (node_ports (nodes m ! n) ! i) = OUTPUT]"

definition signalDestPorts :: "Module \<Rightarrow> PortRef list" where
  "signalDestPorts m =
     [ModulePort i. i \<leftarrow> [0..<length (ports m)],
        \<not> (port_direction (ports m ! i) = INPUT \<or> port_direction (ports m ! i) = CONST_dir)] @
     [NodePort n i. n \<leftarrow> [0..<length (nodes m)],
        i \<leftarrow> [0..<length (node_ports (nodes m ! n))],
        port_direction (node_ports (nodes m ! n) ! i) \<noteq> OUTPUT]"

definition createSignalConnections :: "Parser \<Rightarrow> Parser" where
  "createSignalConnections P =
     connectSignalDestConnections (signalDestPorts (currentModule P))
       (connectSignalSrcConnections (signalSrcPorts (currentModule P)) P)"

subsection \<open>Resolution of the whole module: \<open>connectDiagramConnections\<close>\<close>

text \<open>
  The bit sequences handed to the resolver. Ports with a no-connect bit are skipped;
  module ports of direction INPUT or CONST and node ports of direction OUTPUT are
  sources, module ports of direction OUTPUT and node ports of direction INPUT are
  destinations.
\<close>

definition resolverSrcPorts :: "Module \<Rightarrow> QStringList list" where
  "resolverSrcPorts m =
     [port_bits p. p \<leftarrow> ports m, \<not> Port_hasNoConnectBitsConnection p,
        port_direction p = INPUT \<or> port_direction p = CONST_dir] @
     [port_bits p. n \<leftarrow> nodes m, p \<leftarrow> node_ports n, \<not> Port_hasNoConnectBitsConnection p,
        port_direction p = OUTPUT]"

definition resolverDestPorts :: "Module \<Rightarrow> QStringList list" where
  "resolverDestPorts m =
     [port_bits p. p \<leftarrow> ports m, \<not> Port_hasNoConnectBitsConnection p,
        port_direction p = OUTPUT] @
     [port_bits p. n \<leftarrow> nodes m, p \<leftarrow> node_ports n, \<not> Port_hasNoConnectBitsConnection p,
        port_direction p = INPUT]"

text \<open>
  The loop over \<open>destPorts\<close> calls the resolver for each destination, on the shared
  sources, the copy \<open>copyDestPorts\<close> and the two maps.
\<close>

definition resolveAll :: "QStringList list \<Rightarrow> QStringList list \<Rightarrow> SplitJoinState" where
  "resolveAll srcPortBits destPortBits =
     fold (\<lambda>destPort st. createSplitJoin st destPort 0 (int (length destPort)))
          destPortBits
          \<lparr>srcPorts = srcPortBits, destPorts = destPortBits, splitInfo = [], joinInfo = []\<rparr>"

definition connectDiagramConnections :: "Parser \<Rightarrow> Parser" where
  "connectDiagramConnections P =
     (let st = resolveAll (resolverSrcPorts (currentModule P)) (resolverDestPorts (currentModule P))
      in createSignalConnections (createSplitNodes (splitInfo st) (createJoinNodes (joinInfo st) P)))"

subsection \<open>Dangling path pruner: \<open>removeUnconnectedPaths\<close>\<close>

definition pathsToRemove :: "Module \<Rightarrow> nat list" where
  "pathsToRemove m = filter (\<lambda>a. \<not> Path_hasConnection (pathObjects m ! a)) (paths m)"

definition removeUnconnectedPaths :: "Parser \<Rightarrow> Parser" where
  "removeUnconnectedPaths P =
     P\<lparr>currentModule := fold removePath (pathsToRemove (currentModule P)) (currentModule P)\<rparr>"

section \<open>Reading the Yosys JSON document: \<open>Parser::parse\<close>\<close>

text \<open>
  The JSON document is taken as Qt's accessors deliver it. An object is the list of its
  members in the order Qt iterates them (ascending key). A bit is a JSON number or a JSON
  string; \<open>QVariant::toString\<close> turns a number into its decimal numeral (with its sign;
  numbers that are not 64-bit integers are not modelled), and
  \<open>QJsonValue::toString\<close> gives the empty string for anything but a string. A member that
  is missing or of the wrong type reads as the empty array, the empty object or the empty
  string; a cell type that is not a string is \<open>None\<close>. \<open>unused_bits\<close> is, when the
  attribute is a string, the list of the numbers \<open>toInt\<close> reads from its words.
\<close>

datatype JsonBit = JsonNumber int | JsonString QString

fun variantToString :: "JsonBit \<Rightarrow> QString" where
  "variantToString (JsonNumber n) = QString_number n"
| "variantToString (JsonString s) = s"

fun isString :: "JsonBit \<Rightarrow> bool" where
  "isString (JsonNumber n) = False"
| "isString (JsonString s) = True"

fun jsonToString :: "JsonBit \<Rightarrow> QString" where
  "jsonToString (JsonNumber n) = []"
| "jsonToString (JsonString s) = s"

record JsonPort =
  json_direction :: QString
  json_bits :: "JsonBit list"

record JsonCell =
  json_type :: "QString option"
  json_port_directions :: "(QString \<times> QString) list"
  json_connections :: "(QString \<times> JsonBit list) list"

record JsonNetname =
  json_hide_name :: int
  json_netname_bits :: "JsonBit list"
  json_unused_bits :: "int list option"

record JsonModule =
  json_blackbox :: bool
  json_top :: bool
  json_netnames :: "(QString \<times> JsonNetname) list"
  json_ports :: "(QString \<times> JsonPort) list"
  json_cells :: "(QString \<times> JsonCell) list"

text \<open>
  A \<open>std::runtime_error\<close> is the left summand of a sum, carrying the text of the
  exception.
\<close>

definition YosysJson_input_dir :: QString where
  "YosysJson_input_dir = ''input''"

definition YosysJson_output_dir :: QString where
  "YosysJson_output_dir = ''output''"

definition createPort :: "QString \<Rightarrow> JsonBit list \<Rightarrow> QString \<Rightarrow> QString + Port" where
  "createPort name bitData directionStr =
     (if directionStr \<noteq> YosysJson_input_dir \<and> directionStr \<noteq> YosysJson_output_dir
      then Inl (''Error while parsing the port '' @ name @ '': Invalid direction'')
      else if bitData = []
      then Inl (''Error while parsing the port '' @ name @ '': No bits found'')
      else Inr (newPort name
                  (if directionStr = YosysJson_input_dir then INPUT else OUTPUT)
                  (map variantToString bitData)))"

fun parsePorts :: "(QString \<times> JsonPort) list \<Rightarrow> Parser \<Rightarrow> QString + Parser" where
  "parsePorts [] P = Inr P"
| "parsePorts ((name, v) # rest) P =
     (case createPort name (json_bits v) (json_direction v) of
        Inl e \<Rightarrow> Inl e
      | Inr portInstance \<Rightarrow>
          parsePorts rest (P\<lparr>currentModule := addPort portInstance (currentModule P)\<rparr>))"

text \<open>
  The ports of one cell: one \<open>createPort\<close> for every key of \<open>port_directions\<close>, with the
  member of \<open>connections\<close> of the same name (the empty array when there is none).
\<close>

fun createCellPorts ::
  "(QString \<times> QString) list \<Rightarrow> (QString \<times> JsonBit list) list \<Rightarrow> QString + Port list" where
  "createCellPorts [] portConnections = Inr []"
| "createCellPorts ((portName, dir) # rest) portConnections =
     (case createPort portName
             (case map_of portConnections portName of None \<Rightarrow> [] | Some bitData \<Rightarrow> bitData)
             dir of
        Inl e \<Rightarrow> Inl e
      | Inr port \<Rightarrow>
          (case createCellPorts rest portConnections of
             Inl e \<Rightarrow> Inl e
           | Inr cellPorts \<Rightarrow> Inr (port # cellPorts)))"

fun parseCells :: "(QString \<times> JsonCell) list \<Rightarrow> Parser \<Rightarrow> QString + Parser" where
  "parseCells [] P = Inr P"
| "parseCells ((name, cellData) # rest) P =
     (case json_type cellData of
        None \<Rightarrow> Inl (''Error while parsing '' @ name @ '': Cell type is not valid'')
      | Some cellType \<Rightarrow>
          if json_port_directions cellData = [] \<or> json_connections cellData = []
          then Inl (''Error while parsing '' @ name @ '': No port directions or connections found'')
          else if length (json_port_directions cellData) \<noteq> length (json_connections cellData)
          then Inl (''Error while parsing '' @ name @
                    '': the number of port direction definitions does not match the number of port connections'')
          else
            (case createCellPorts (json_port_directions cellData) (json_connections cellData) of
               Inl e \<Rightarrow> Inl e
             | Inr cellPorts \<Rightarrow>
                 if length (json_port_directions cellData) \<noteq> length cellPorts
                 then Inl (''Error while parsing '' @ name @
                           '': Not all ports could be created successfully'')
                 else parseCells rest
                        (P\<lparr>currentModule :=
                             addNodeWithPorts name cellType cellPorts (currentModule P)\<rparr>)))"

text \<open>
  \<open>Parser::parseNetnames\<close>. \<open>QJsonArray::removeAt\<close> does nothing for an index out of
  range. A netname whose bits are all JSON strings is skipped; a netname whose bits equal
  those of a netname already in the module is recorded there as an alternative name.
\<close>

definition jsonRemoveAt :: "int \<Rightarrow> 'a list \<Rightarrow> 'a list" where
  "jsonRemoveAt i xs = (if i < 0 \<or> i \<ge> int (length xs) then xs else removeAt xs i)"

definition Netname_addAlternativeName :: "QString \<Rightarrow> Netname \<Rightarrow> Netname" where
  "Netname_addAlternativeName alternativeName n =
     n\<lparr>alternativeNetnames := alternativeNetnames n @ [alternativeName]\<rparr>"

definition newNetname :: "QString \<Rightarrow> QStringList \<Rightarrow> bool \<Rightarrow> Netname" where
  "newNetname name bits hidden =
     \<lparr>netname_name = name, netname_bits = bits, isHidden = hidden, alternativeNetnames = []\<rparr>"

fun parseNetnames :: "(QString \<times> JsonNetname) list \<Rightarrow> Parser \<Rightarrow> QString + Parser" where
  "parseNetnames [] P = Inr P"
| "parseNetnames ((pathName, netnameData) # rest) P =
     (if json_netname_bits netnameData = []
      then Inl (''Error while parsing the netname '' @ pathName @ '': No bits found'')
      else if \<forall>b\<in>set (json_netname_bits netnameData). isString b \<or> jsonToString b = ''x''
      then parseNetnames rest P
      else
        (let hidden = (json_hide_name netnameData = 1);
             bitsArray = (case json_unused_bits netnameData of
                            None \<Rightarrow> json_netname_bits netnameData
                          | Some unusedBitsArray \<Rightarrow>
                              fold jsonRemoveAt (rev unusedBitsArray) (json_netname_bits netnameData));
             bitStrings = map variantToString bitsArray;
             m = currentModule P;
             foundAlternative = (\<exists>n\<in>set (netnames m). netname_bits n = bitStrings)
         in parseNetnames rest
              (P\<lparr>currentModule :=
                   (if foundAlternative
                    then m\<lparr>netnames :=
                           map (\<lambda>n. if netname_bits n = bitStrings
                                     then Netname_addAlternativeName pathName n else n)
                               (netnames m)\<rparr>
                    else addNetname (newNetname pathName bitStrings hidden) m)\<rparr>)))"

text \<open>
  One turn of the loop of \<open>Parser::parse\<close> for a module that is not a black box. The
  module is added to the diagram only when no check throws.
\<close>

definition addModule :: "Module \<Rightarrow> Diagram \<Rightarrow> Diagram" where
  "addModule m d = d\<lparr>modules := modules d @ [m]\<rparr>"

definition validateAndAdd :: "QString \<Rightarrow> bool \<Rightarrow> Parser \<Rightarrow> QString + Parser" where
  "validateAndAdd name isTop P =
     (if ports (currentModule P) = [] \<and> nodes (currentModule P) = []
      then Inl (''Error while parsing '' @ name @ '': Module has no Ports or Nodes'')
      else
        (let P' = removeUnconnectedPaths (connectDiagramConnections (replaceConstBits P)) in
         if hasModuleInvalidPaths (currentModule P')
         then Inl (''Error while parsing '' @ name @ '': Module has no Paths or Nodes'')
         else if isEmpty (currentModule P')
         then Inl (''Error while parsing '' @ name @ '': Module has no components'')
         else
           (let d = addModule (currentModule P') (diagram P') in
            Inr (P'\<lparr>diagram :=
                       (if isTop then d\<lparr>topModule := Some (length (modules d) - 1)\<rparr> else d)\<rparr>))))"

definition parseModule :: "QString \<Rightarrow> JsonModule \<Rightarrow> Parser \<Rightarrow> QString + Parser" where
  "parseModule name module P =
     (case parseNetnames (json_netnames module) (P\<lparr>currentModule := newModule name\<rparr>) of
        Inl e \<Rightarrow> Inl e
      | Inr P1 \<Rightarrow>
          (case parsePorts (json_ports module) P1 of
             Inl e \<Rightarrow> Inl e
           | Inr P2 \<Rightarrow>
               (case parseCells (json_cells module) P2 of
                  Inl e \<Rightarrow> Inl e
                | Inr P3 \<Rightarrow> validateAndAdd name (json_top module) P3)))"

text \<open>
  The loop over the modules. Nothing in \<open>parse\<close> catches an exception: the first module
  that throws ends the loop and the call. The result is then the text of the exception
  together with the diagram as it stands at that moment (what \<open>getDiagram\<close> would
  return); otherwise it is the parser after the last module.
\<close>

fun parseModules :: "(QString \<times> JsonModule) list \<Rightarrow> Parser \<Rightarrow> QString \<times> Diagram + Parser" where
  "parseModules [] P = Inr P"
| "parseModules ((name, module) # rest) P =
     (if json_blackbox module then parseModules rest P
      else (case parseModule name module P of
              Inl e \<Rightarrow> Inl (e, diagram P)
            | Inr P' \<Rightarrow> parseModules rest P'))"

definition parse :: "(QString \<times> JsonModule) list \<Rightarrow> Parser \<Rightarrow> QString \<times> Diagram + Parser" where
  "parse yosysModules P =
     (if yosysModules = [] then Inl (''No modules found in Yosys JSON object'', diagram P)
      else parseModules yosysModules P)"

section \<open>Concrete designs\<close>

text \<open>
  Scenario B of the specification: one boundary INPUT port of four bits and two boundary
  OUTPUT ports that take its lower and its upper half. \<open>scenarioB_module\<close> is the
  module the parser builds from it.
\<close>

definition scenarioB_json :: JsonModule where
  "scenarioB_json =
     \<lparr>json_blackbox = False, json_top = True, json_netnames = [],
      json_ports =
        [(''a'', \<lparr>json_direction = ''input'',
                  json_bits = [JsonString ''n1'', JsonString ''n2'', JsonString ''n3'', JsonString ''n4'']\<rparr>),
         (''b'', \<lparr>json_direction = ''output'', json_bits = [JsonString ''n1'', JsonString ''n2'']\<rparr>),
         (''c'', \<lparr>json_direction = ''output'', json_bits = [JsonString ''n3'', JsonString ''n4'']\<rparr>)],
      json_cells = []\<rparr>"

definition scenarioB_module :: Module where
  "scenarioB_module =
     \<lparr>module_type = ''top'',
      ports =
        [\<lparr>port_name = ''a'', port_direction = INPUT, port_bits = [''n1'', ''n2'', ''n3'', ''n4''],
          port_path = Some 0, port_parentNode = None\<rparr>,
         \<lparr>port_name = ''b'', port_direction = OUTPUT, port_bits = [''n1'', ''n2''],
          port_path = Some 1, port_parentNode = None\<rparr>,
         \<lparr>port_name = ''c'', port_direction = OUTPUT, port_bits = [''n3'', ''n4''],
          port_path = Some 2, port_parentNode = None\<rparr>],
      nodes =
        [\<lparr>node_name = ''split0'', node_type = ''split'',
          node_ports =
            [\<lparr>port_name = ''in'', port_direction = INPUT,
              port_bits = [''n1'', ''n2'', ''n3'', ''n4''],
              port_path = Some 0, port_parentNode = Some 0\<rparr>,
             \<lparr>port_name = ''out0'', port_direction = OUTPUT, port_bits = [''n1'', ''n2''],
              port_path = Some 1, port_parentNode = Some 0\<rparr>,
             \<lparr>port_name = ''out1'', port_direction = OUTPUT, port_bits = [''n3'', ''n4''],
              port_path = Some 2, port_parentNode = Some 0\<rparr>]\<rparr>],
      pathObjects =
        [\<lparr>path_name = ''a_sig'', path_width = 4, path_bits = [''n1'', ''n2'', ''n3'', ''n4''],
          hiddenName = True, sigSource = Some (ModulePort 0),
          sigDestinations = [NodePort 0 0], alternativeNames = []\<rparr>,
         \<lparr>path_name = ''out0_sig'', path_width = 2, path_bits = [''n1'', ''n2''],
          hiddenName = True, sigSource = Some (NodePort 0 1),
          sigDestinations = [ModulePort 1], alternativeNames = []\<rparr>,
         \<lparr>path_name = ''out1_sig'', path_width = 2, path_bits = [''n3'', ''n4''],
          hiddenName = True, sigSource = Some (NodePort 0 2),
          sigDestinations = [ModulePort 2], alternativeNames = []\<rparr>],
      paths = [0, 1, 2],
      netnames = []\<rparr>"



text \<open>
  Scenario A of the specification (a boundary input wired to a boundary output), with the
  two netnames Yosys writes for the two ports, which name the same bits; and a module
  without ports and cells. \<open>scenarioA_module\<close> is the module the parser builds.
\<close>

definition emptyModule_json :: JsonModule where
  "emptyModule_json =
     \<lparr>json_blackbox = False, json_top = False, json_netnames = [], json_ports = [],
      json_cells = []\<rparr>"

definition scenarioA_json :: JsonModule where
  "scenarioA_json =
     \<lparr>json_blackbox = False, json_top = True,
      json_netnames =
        [(''a'', \<lparr>json_hide_name = 0, json_netname_bits = [JsonNumber 2, JsonNumber 3],
                  json_unused_bits = None\<rparr>),
         (''b'', \<lparr>json_hide_name = 0, json_netname_bits = [JsonNumber 2, JsonNumber 3],
                  json_unused_bits = None\<rparr>)],
      json_ports =
        [(''a'', \<lparr>json_direction = ''input'', json_bits = [JsonNumber 2, JsonNumber 3]\<rparr>),
         (''b'', \<lparr>json_direction = ''output'', json_bits = [JsonNumber 2, JsonNumber 3]\<rparr>)],
      json_cells = []\<rparr>"

definition scenarioA_module :: Module where
  "scenarioA_module =
     \<lparr>module_type = ''m2'',
      ports =
        [\<lparr>port_name = ''a'', port_direction = INPUT, port_bits = [''2'', ''3''],
          port_path = Some 0, port_parentNode = None\<rparr>,
         \<lparr>port_name = ''b'', port_direction = OUTPUT, port_bits = [''2'', ''3''],
          port_path = Some 0, port_parentNode = None\<rparr>],
      nodes = [],
      pathObjects =
        [\<lparr>path_name = ''a'', path_width = 2, path_bits = [''2'', ''3''], hiddenName = False,
          sigSource = Some (ModulePort 0), sigDestinations = [ModulePort 1],
          alternativeNames = []\<rparr>],
      paths = [0],
      netnames =
        [\<lparr>netname_name = ''a'', netname_bits = [''2'', ''3''], isHidden = False,
          alternativeNetnames = [''b'']\<rparr>]\<rparr>"

text \<open>The parser of scenario A after its netnames and ports are read.\<close>

definition scenarioA_read :: Parser where
  "scenarioA_read =
     newParser\<lparr>currentModule :=
       \<lparr>module_type = ''m2'',
        ports = [newPort ''a'' INPUT [''2'', ''3''], newPort ''b'' OUTPUT [''2'', ''3'']],
        nodes = [], pathObjects = [], paths = [],
        netnames =
          [\<lparr>netname_name = ''a'', netname_bits = [''2'', ''3''], isHidden = False,
            alternativeNetnames = [''b'']\<rparr>]\<rparr>\<rparr>"


text \<open>
  Scenario E of the specification: the sink \<open>["n1", "n9"]\<close> when \<open>["n1"]\<close> is the only
  source. \<open>scenarioE_pools\<close> are the containers once the sink itself is taken from the
  destinations, \<open>scenarioE_task\<close> is the task for the last bit.
\<close>

definition scenarioE_pools :: SplitJoinState where
  "scenarioE_pools =
     \<lparr>srcPorts = [[''n1'']], destPorts = [], splitInfo = [], joinInfo = []\<rparr>"

definition scenarioE_task :: Task where
  "scenarioE_task = \<lparr>startIdx = 1, endIdx = 2, querryBits = [''n9'']\<rparr>"

text \<open>
  Modules that fail one check each. \<open>danglingInput_json\<close> has one input port that nothing
  reads, and no cell. \<open>cellModule_json cells\<close> has an input \<open>a\<close>, an output \<open>y\<close> and the given
  cells; \<open>untypedCell\<close> is a cell whose \<open>type\<close> is not a string, \<open>lopsidedCell\<close> a cell with
  two port directions and one connection, \<open>bareCell\<close> a cell with two port directions
  and no connections. \<open>cellModule_ports\<close> and \<open>danglingInput_ports\<close> are
  the parsers after the ports of these modules are read, \<open>scenarioA_netnames\<close> the parser of
  scenario A after its netnames are read, and \<open>scenarioA_parsed\<close> the parser after the
  module of scenario A is accepted.
\<close>

definition danglingInput_json :: JsonModule where
  "danglingInput_json =
     \<lparr>json_blackbox = False, json_top = False, json_netnames = [],
      json_ports = [(''a'', \<lparr>json_direction = ''input'', json_bits = [JsonNumber 2]\<rparr>)],
      json_cells = []\<rparr>"

definition cellModule_json :: "(QString \<times> JsonCell) list \<Rightarrow> JsonModule" where
  "cellModule_json cells =
     \<lparr>json_blackbox = False, json_top = False, json_netnames = [],
      json_ports =
        [(''a'', \<lparr>json_direction = ''input'', json_bits = [JsonNumber 2]\<rparr>),
         (''y'', \<lparr>json_direction = ''output'', json_bits = [JsonNumber 3]\<rparr>)],
      json_cells = cells\<rparr>"

definition untypedCell :: JsonCell where
  "untypedCell =
     \<lparr>json_type = None,
      json_port_directions = [(''A'', ''input''), (''Y'', ''output'')],
      json_connections = [(''A'', [JsonNumber 2]), (''Y'', [JsonNumber 3])]\<rparr>"

definition lopsidedCell :: JsonCell where
  "lopsidedCell =
     \<lparr>json_type = Some ''$not'',
      json_port_directions = [(''A'', ''input''), (''Y'', ''output'')],
      json_connections = [(''A'', [JsonNumber 2])]\<rparr>"

definition bareCell :: JsonCell where
  "bareCell =
     \<lparr>json_type = Some ''$not'',
      json_port_directions = [(''A'', ''input''), (''Y'', ''output'')],
      json_connections = []\<rparr>"

definition cellModule_ports :: Parser where
  "cellModule_ports =
     newParser\<lparr>currentModule :=
       (newModule ''top'')\<lparr>ports := [newPort ''a'' INPUT [''2''], newPort ''y'' OUTPUT [''3'']]\<rparr>\<rparr>"

definition danglingInput_ports :: Parser where
  "danglingInput_ports =
     newParser\<lparr>currentModule := (newModule ''top'')\<lparr>ports := [newPort ''a'' INPUT [''2'']]\<rparr>\<rparr>"

definition scenarioA_netnames :: Parser where
  "scenarioA_netnames =
     scenarioA_read\<lparr>currentModule := (currentModule scenarioA_read)\<lparr>ports := []\<rparr>\<rparr>"

definition scenarioA_parsed :: Parser where
  "scenarioA_parsed =
     \<lparr>diagram = \<lparr>modules = [scenarioA_module], topModule = Some 0\<rparr>,
      currentModule = scenarioA_module, constToNonConstPortBits = []\<rparr>"





text \<open>
  The keys that consecutive runs occupy, counted from \<open>n\<close>: the inclusive index ranges
  \<open>(start, end)\<close> of \<open>Parser::splitBits\<close>.
\<close>
fun ranges_from :: "nat \<Rightarrow> 'a list list \<Rightarrow> (nat \<times> nat) list" where
  "ranges_from n [] = []"
| "ranges_from n (r # rs) = (n, n + length r - 1) # ranges_from (n + length r) rs"

fun alternating :: "QStringList list \<Rightarrow> bool" where
  "alternating [] = True"
| "alternating [r] = True"
| "alternating (r1 # r2 # rs) = (isConstBit (hd r1) \<noteq> isConstBit (hd r2) \<and> alternating (r2 # rs))"

definition uniform :: "QStringList \<Rightarrow> bool" where
  "uniform r = (r \<noteq> [] \<and> (\<forall>b\<in>set r. isConstBit b = isConstBit (hd r)))"

lemma map_assign_append:
  "\<forall>k'\<in>fst ` set m. k' < k \<Longrightarrow> map_assign k v m = m @ [(k, v)]"
  by (induction m) (auto simp: less_le_not_le)

lemma ranges_from_append:
  "ranges_from n (rs @ [r]) = ranges_from n rs @ [(n + length (concat rs), n + length (concat rs) + length r - 1)]"
  by (induction rs arbitrary: n) (auto simp: add.assoc)

lemma ranges_from_fst_less:
  "\<forall>r\<in>set rs. r \<noteq> [] \<Longrightarrow> k \<in> set (ranges_from n rs) \<Longrightarrow> fst k < n + length (concat rs)"
proof (induction rs arbitrary: n)
  case Nil then show ?case by simp
next
  case (Cons r rs)
  then show ?case by (cases r) (fastforce simp: add.assoc)+
qed

lemma alternating_append:
  "alternating (rs @ [r]) = (alternating rs \<and> (rs \<noteq> [] \<longrightarrow> isConstBit (hd (last rs)) \<noteq> isConstBit (hd r)))"
  by (induction rs rule: alternating.induct) auto

lemma alternating_nth:
  "alternating rs \<Longrightarrow> Suc i < length rs \<Longrightarrow> isConstBit (hd (rs ! i)) \<noteq> isConstBit (hd (rs ! Suc i))"
proof (induction rs arbitrary: i rule: alternating.induct)
  case (3 r1 r2 rs)
  then show ?case by (cases i) auto
qed auto

definition segs_ok :: "((nat \<times> nat), QStringList) std_map \<Rightarrow> bool" where
  "segs_ok m = (map fst m = ranges_from 0 (map snd m) \<and> (\<forall>r\<in>set (map snd m). uniform r) \<and> alternating (map snd m))"

lemma segs_ok_assign:
  assumes "segs_ok m" "uniform cur" "m \<noteq> [] \<longrightarrow> isConstBit (hd (snd (last m))) \<noteq> isConstBit (hd cur)"
      "start = length (concat (map snd m))"
  shows "map_assign (start, start + length cur - 1) cur m = m @ [((start, start + length cur - 1), cur)]"
    and "segs_ok (m @ [((start, start + length cur - 1), cur)])"
proof -
  have ne: "\<forall>r\<in>set (map snd m). r \<noteq> []" using assms(1) by (auto simp: segs_ok_def uniform_def)
  have "\<forall>k'\<in>fst ` set m. fst k' < start"
  proof
    fix k' assume "k' \<in> fst ` set m"
    then have "k' \<in> set (ranges_from 0 (map snd m))" using assms(1) unfolding segs_ok_def
      by (metis set_map)
    from ranges_from_fst_less[OF ne this] show "fst k' < start" using assms(4) by simp
  qed
  then have "\<forall>k'\<in>fst ` set m. k' < (start, start + length cur - 1)"
    by (auto simp: less_prod_def)
  then show "map_assign (start, start + length cur - 1) cur m = m @ [((start, start + length cur - 1), cur)]"
    by (rule map_assign_append)
  show "segs_ok (m @ [((start, start + length cur - 1), cur)])"
    using assms by (auto simp: segs_ok_def ranges_from_append alternating_append last_map)
qed

lemma splitBits_loop_inv:
  assumes "segs_ok m" "start = length (concat (map snd m))"
    "cur \<noteq> [] \<longrightarrow> uniform cur \<and> isConstBit (hd cur) = lw"
    "m \<noteq> [] \<longrightarrow> cur \<noteq> [] \<and> isConstBit (hd (snd (last m))) \<noteq> lw"
    "splitBits_loop rest (m, cur, start, lw) = (m', cur', start', lw')"
  shows "segs_ok m' \<and> start' = length (concat (map snd m')) \<and>
         concat (map snd m') @ cur' = concat (map snd m) @ cur @ rest \<and>
         (cur' \<noteq> [] \<longrightarrow> uniform cur' \<and> isConstBit (hd cur') = lw') \<and>
         (m' \<noteq> [] \<longrightarrow> cur' \<noteq> [] \<and> isConstBit (hd (snd (last m'))) \<noteq> lw') \<and>
         (cur \<noteq> [] \<or> rest \<noteq> [] \<longrightarrow> cur' \<noteq> [])"
  using assms
proof (induction rest arbitrary: m cur start lw)
  case Nil
  then show ?case by auto
next
  case (Cons b rest)
  let ?c = "isConstBit b"
  show ?case
  proof (cases "cur = [] \<or> ?c = lw")
    case True
    have step: "splitBits_loop rest (m, cur @ [b], start, ?c) = (m', cur', start', lw')"
      using Cons.prems(5) True by (simp add: isConstBit_def Let_def)
    have u: "uniform (cur @ [b]) \<and> isConstBit (hd (cur @ [b])) = ?c"
      using True Cons.prems(3) by (cases cur) (auto simp: uniform_def)
    have m: "m \<noteq> [] \<longrightarrow> cur @ [b] \<noteq> [] \<and> isConstBit (hd (snd (last m))) \<noteq> ?c"
      using True Cons.prems(4) by auto
    from Cons.IH[OF Cons.prems(1) Cons.prems(2) _ m step] u
    show ?thesis by simp
  next
    case False
    then have cne: "cur \<noteq> []" and diff: "?c \<noteq> lw" by auto
    have ucur: "uniform cur" and hcur: "isConstBit (hd cur) = lw" using Cons.prems(3) cne by auto
    let ?k = "(start, start + length cur - 1)"
    have alt: "m \<noteq> [] \<longrightarrow> isConstBit (hd (snd (last m))) \<noteq> isConstBit (hd cur)"
      using Cons.prems(4) hcur by simp
    note A = segs_ok_assign[OF Cons.prems(1) ucur alt Cons.prems(2)]
    have step: "splitBits_loop rest (m @ [(?k, cur)], [b], start + length cur, ?c) = (m', cur', start', lw')"
      using Cons.prems(5) False A(1) by (simp add: isConstBit_def Let_def)
    have s: "start + length cur = length (concat (map snd (m @ [(?k, cur)])))"
      using Cons.prems(2) by simp
    have u: "[b] \<noteq> [] \<longrightarrow> uniform [b] \<and> isConstBit (hd [b]) = ?c" by (simp add: uniform_def)
    have m: "m @ [(?k, cur)] \<noteq> [] \<longrightarrow> [b] \<noteq> [] \<and> isConstBit (hd (snd (last (m @ [(?k, cur)])))) \<noteq> ?c"
      using hcur diff by simp
    from Cons.IH[OF A(2) s u m step] show ?thesis by simp
  qed
qed

lemma splitBits_ok:
  "segs_ok (splitBits bits) \<and> concat (map snd (splitBits bits)) = bits"
proof (cases "bits = []")
  case True
  then show ?thesis by (simp add: splitBits_def segs_ok_def)
next
  case False
  obtain m' cur' start' lw' where
    L: "splitBits_loop bits ([], [], 0, isConstBit (hd bits)) = (m', cur', start', lw')"
    by (metis prod_cases4)
  have I: "segs_ok m' \<and> start' = length (concat (map snd m')) \<and>
         concat (map snd m') @ cur' = concat (map snd []) @ [] @ bits \<and>
         (cur' \<noteq> [] \<longrightarrow> uniform cur' \<and> isConstBit (hd cur') = lw') \<and>
         (m' \<noteq> [] \<longrightarrow> cur' \<noteq> [] \<and> isConstBit (hd (snd (last m'))) \<noteq> lw') \<and>
         ([] \<noteq> [] \<or> bits \<noteq> [] \<longrightarrow> cur' \<noteq> [])"
    using splitBits_loop_inv[where m="[]" and cur="[]" and start=0 and rest=bits, OF _ _ _ _ L]
    by (simp add: segs_ok_def)
  then have cne: "cur' \<noteq> []" using False by simp
  have alt: "m' \<noteq> [] \<longrightarrow> isConstBit (hd (snd (last m'))) \<noteq> isConstBit (hd cur')"
    using I cne by simp
  have st: "start' = length (concat (map snd m'))" using I by simp
  have u: "uniform cur'" using I cne by simp
  have sg: "segs_ok m'" using I by simp
  note A = segs_ok_assign[OF sg u alt st]
  have eq: "splitBits bits = m' @ [((start', start' + length cur' - 1), cur')]"
    using False L cne A(1) by (simp add: splitBits_def isConstBit_def)
  show ?thesis using A(2) I by (simp add: eq)
qed


text \<open>
  C2. For every bit sequence, the runs of \<open>splitBits\<close>, read in the order of the map
  (ascending ranges, laid end to end from index 0), concatenate to the input; every run is
  non-empty and all its bits have the classification (constant or not) of its first bit;
  and two neighbouring runs never have the same classification.
\<close>

theorem splitBits_roundtrip:
  "concat (map snd (splitBits bits)) = bits \<and>
   map fst (splitBits bits) = ranges_from 0 (map snd (splitBits bits)) \<and>
   (\<forall>run\<in>set (map snd (splitBits bits)).
      run \<noteq> [] \<and> (\<forall>b\<in>set run. isConstBit b = isConstBit (hd run))) \<and>
   (\<forall>i. Suc i < length (splitBits bits) \<longrightarrow>
      isConstBit (hd (snd (splitBits bits ! i))) \<noteq> isConstBit (hd (snd (splitBits bits ! Suc i))))"
proof -
  have ok: "segs_ok (splitBits bits)" and cc: "concat (map snd (splitBits bits)) = bits"
    using splitBits_ok[of bits] by simp_all
  have keys: "map fst (splitBits bits) = ranges_from 0 (map snd (splitBits bits))"
    using ok unfolding segs_ok_def by blast
  have uni: "\<forall>run\<in>set (map snd (splitBits bits)). uniform run"
    using ok unfolding segs_ok_def by blast
  have alt0: "alternating (map snd (splitBits bits))"
    using ok unfolding segs_ok_def by blast
  have alt: "\<forall>i. Suc i < length (splitBits bits) \<longrightarrow>
      isConstBit (hd (snd (splitBits bits ! i))) \<noteq> isConstBit (hd (snd (splitBits bits ! Suc i)))"
  proof (intro allI impI)
    fix i assume i: "Suc i < length (splitBits bits)"
    then have "Suc i < length (map snd (splitBits bits))" by simp
    from alternating_nth[OF alt0 this] i
    show "isConstBit (hd (snd (splitBits bits ! i))) \<noteq> isConstBit (hd (snd (splitBits bits ! Suc i)))"
      by simp
  qed
  have uni': "\<forall>run\<in>set (map snd (splitBits bits)).
      run \<noteq> [] \<and> (\<forall>b\<in>set run. isConstBit b = isConstBit (hd run))"
    using uni unfolding uniform_def by blast
  from cc keys uni' alt show ?thesis by blast
qed

theorem splitBits_roundtrip_witness:
  "splitBits [''5'', ''0'', ''1'', ''7''] =
     [((0, 0), [''5'']), ((1, 2), [''0'', ''1'']), ((3, 3), [''7''])] \<and>
   concat (map snd (splitBits [''5'', ''0'', ''1'', ''7''])) = [''5'', ''0'', ''1'', ''7''] \<and>
   [''0'', ''1''] \<in> set (map snd (splitBits [''5'', ''0'', ''1'', ''7''])) \<and>
   isConstBit ''1'' = isConstBit (hd [''0'', ''1'']) \<and>
   Suc 0 < length (splitBits [''5'', ''0'', ''1'', ''7'']) \<and>
   isConstBit (hd (snd (splitBits [''5'', ''0'', ''1'', ''7''] ! 0))) \<noteq>
     isConstBit (hd (snd (splitBits [''5'', ''0'', ''1'', ''7''] ! Suc 0)))"
proof -
  have e: "splitBits [''5'', ''0'', ''1'', ''7''] =
     [((0, 0), [''5'']), ((1, 2), [''0'', ''1'']), ((3, 3), [''7''])]"
    by (simp add: splitBits_def)
  show ?thesis
    using splitBits_roundtrip [of "[''5'', ''0'', ''1'', ''7'']"]
    unfolding e by (simp add: isConstBit_def)
qed

section \<open>Scenario B\<close>

text \<open>
  C1, as the code has it. Parsing the design of scenario B accepts the module with exactly
  one synthetic node, of type \<open>split\<close>, whose INPUT port \<open>in\<close> carries the four source
  bits and whose OUTPUT ports \<open>out0\<close> and \<open>out1\<close> carry the bits of the two sinks; and the
  module holds exactly three paths: one from the boundary input to \<open>in\<close>, and one from
  each output of the node to its sink.
\<close>

theorem scenarioB_three_paths:
  "parse [(''top'', scenarioB_json)] newParser =
     Inr \<lparr>diagram = \<lparr>modules = [scenarioB_module], topModule = Some 0\<rparr>,
          currentModule = scenarioB_module, constToNonConstPortBits = []\<rparr> \<and>
   map node_type (nodes scenarioB_module) = [''split''] \<and>
   map (\<lambda>p. (port_name p, port_direction p, port_bits p)) (node_ports (nodes scenarioB_module ! 0)) =
     [(''in'', INPUT, [''n1'', ''n2'', ''n3'', ''n4'']),
      (''out0'', OUTPUT, [''n1'', ''n2'']),
      (''out1'', OUTPUT, [''n3'', ''n4''])] \<and>
   length (paths scenarioB_module) = 3 \<and>
   map (\<lambda>a. (sigSource (pathObjects scenarioB_module ! a),
              sigDestinations (pathObjects scenarioB_module ! a))) (paths scenarioB_module) =
     [(Some (ModulePort 0), [NodePort 0 0]),
      (Some (NodePort 0 1), [ModulePort 1]),
      (Some (NodePort 0 2), [ModulePort 2])]"
  by code_simp

text \<open>The module of scenario B does not have two paths, as C1 states, but three.\<close>

theorem scenarioB_two_paths_counterexample:
  "parse [(''top'', scenarioB_json)] newParser =
     Inr \<lparr>diagram = \<lparr>modules = [scenarioB_module], topModule = Some 0\<rparr>,
          currentModule = scenarioB_module, constToNonConstPortBits = []\<rparr> \<and>
   length (paths scenarioB_module) \<noteq> 2"
  by code_simp

section \<open>The dangling path pruner\<close>

lemma fold_remove1_filter:
  "\<forall>y\<in>set ys. \<not> Q y \<Longrightarrow> fold remove1 (filter Q xs) (ys @ xs) = ys @ filter (\<lambda>x. \<not> Q x) xs"
proof (induction xs arbitrary: ys)
  case Nil
  then show ?case by simp
next
  case (Cons x xs)
  show ?case
  proof (cases "Q x")
    case True
    then have "x \<notin> set ys" using Cons.prems by auto
    then have "remove1 x (ys @ x # xs) = ys @ xs" by (simp add: remove1_append)
    then show ?thesis using True Cons.IH[OF Cons.prems] by simp
  next
    case False
    then have "\<forall>y\<in>set (ys @ [x]). \<not> Q y" using Cons.prems by auto
    from Cons.IH[OF this] False show ?thesis by simp
  qed
qed

lemma fold_removePath:
  "fold removePath as m = m\<lparr>paths := fold remove1 as (paths m)\<rparr>"
  by (induction as arbitrary: m) (simp_all add: removePath_def)

lemma removeUnconnectedPaths_filter:
  "removeUnconnectedPaths P =
     P\<lparr>currentModule := (currentModule P)
         \<lparr>paths := filter (\<lambda>a. Path_hasConnection (pathObjects (currentModule P) ! a))
                      (paths (currentModule P))\<rparr>\<rparr>"
  using fold_remove1_filter[of "[]" "\<lambda>a. \<not> Path_hasConnection (pathObjects (currentModule P) ! a)"
          "paths (currentModule P)"]
  by (simp add: removeUnconnectedPaths_def pathsToRemove_def fold_removePath)




text \<open>
  C9. Running the pruner twice gives the same parser state, hence the same paths, as
  running it once.
\<close>

theorem removeUnconnectedPaths_idempotent:
  "removeUnconnectedPaths (removeUnconnectedPaths P) = removeUnconnectedPaths P"
  by (simp add: removeUnconnectedPaths_filter)

section \<open>The driver of a path\<close>

text \<open>
  C10. \<open>setSigSource\<close> without \<open>allowOverwrite\<close> leaves a path that has a driver as it
  is, in every field; the driver is written exactly when there is none yet or
  \<open>allowOverwrite\<close> is set.
\<close>

theorem setSigSource_first_driver_wins:
  "(sigSource p \<noteq> None \<and> \<not> allowOverwrite \<longrightarrow> setSigSource src allowOverwrite p = p) \<and>
   (sigSource p = None \<or> allowOverwrite \<longrightarrow> setSigSource src allowOverwrite p = p\<lparr>sigSource := src\<rparr>)"
  by (simp add: setSigSource_def)

theorem setSigSource_first_driver_wins_witness:
  "sigSource (setSigSource (Some (ModulePort 0)) False (newPath ''a_sig'' [''2''] True)) \<noteq> None \<and>
   setSigSource (Some (NodePort 0 1)) False
     (setSigSource (Some (ModulePort 0)) False (newPath ''a_sig'' [''2''] True)) =
   setSigSource (Some (ModulePort 0)) False (newPath ''a_sig'' [''2''] True) \<and>
   sigSource (newPath ''a_sig'' [''2''] True) = None \<and>
   setSigSource (Some (ModulePort 0)) False (newPath ''a_sig'' [''2''] True) =
     (newPath ''a_sig'' [''2''] True)\<lparr>sigSource := Some (ModulePort 0)\<rparr>"
  using setSigSource_first_driver_wins
          [of "setSigSource (Some (ModulePort 0)) False (newPath ''a_sig'' [''2''] True)" False
              "Some (NodePort 0 1)"]
        setSigSource_first_driver_wins
          [of "newPath ''a_sig'' [''2''] True" False "Some (ModulePort 0)"]
  by (simp add: setSigSource_def newPath_def)

section \<open>Errors of \<open>parse\<close>\<close>

lemma parseModules_append:
  "parseModules before P = Inr P1 \<Longrightarrow> parseModules (before @ rest) P = parseModules rest P1"
  by (induction before arbitrary: P) (auto split: sum.splits if_splits)

text \<open>
  Reading the netnames adds no port and no node; every port of the JSON module becomes a
  port and every cell a node. The module has no ports and no nodes exactly when the JSON
  module has no ports and no cells. A module without paths, nodes and ports has invalid
  paths, so the check for an empty module never fires.
\<close>

lemma parseCells_append:
  "parseCells before P = Inr P1 \<Longrightarrow> parseCells (before @ rest) P = parseCells rest P1"
  by (induction before arbitrary: P) (auto split: sum.splits if_splits option.splits)

lemma parseNetnames_keeps:
  "parseNetnames ns P = Inr P1 \<Longrightarrow>
     ports (currentModule P1) = ports (currentModule P) \<and>
     nodes (currentModule P1) = nodes (currentModule P)"
proof (induction ns arbitrary: P)
  case Nil
  then show ?case by simp
next
  case (Cons a ns)
  obtain pathName netnameData where a: "a = (pathName, netnameData)" by (cases a)
  show ?case
    using Cons.prems Cons.IH
    unfolding a parseNetnames.simps Let_def
    by (fastforce simp: addNetname_def split: if_splits)
qed

lemma parsePorts_keeps:
  "parsePorts ps P = Inr P1 \<Longrightarrow>
     length (ports (currentModule P1)) = length (ports (currentModule P)) + length ps \<and>
     nodes (currentModule P1) = nodes (currentModule P)"
proof (induction ps arbitrary: P)
  case Nil
  then show ?case by simp
next
  case (Cons a ps)
  obtain name v where a: "a = (name, v)" by (cases a)
  from Cons.prems obtain portInstance where
    r: "parsePorts ps (P\<lparr>currentModule := addPort portInstance (currentModule P)\<rparr>) = Inr P1"
    unfolding a by (auto split: sum.splits)
  show ?case using Cons.IH[OF r] by (simp add: addPort_def)
qed

lemma parseCells_keeps:
  "parseCells cs P = Inr P1 \<Longrightarrow>
     length (nodes (currentModule P1)) = length (nodes (currentModule P)) + length cs \<and>
     ports (currentModule P1) = ports (currentModule P)"
proof (induction cs arbitrary: P)
  case Nil
  then show ?case by simp
next
  case (Cons a cs)
  obtain name cellData where a: "a = (name, cellData)" by (cases a)
  from Cons.prems obtain cellType cellPorts where
    r: "parseCells cs (P\<lparr>currentModule :=
          addNodeWithPorts name cellType cellPorts (currentModule P)\<rparr>) = Inr P1"
    unfolding a by (auto split: sum.splits option.splits if_splits)
  show ?case using Cons.IH[OF r] by (simp add: addNodeWithPorts_def addNode_def)
qed

lemma isEmpty_invalid: "isEmpty m \<Longrightarrow> hasModuleInvalidPaths m"
  by (simp add: isEmpty_def hasModuleInvalidPaths_def)

lemma read_module_empty:
  assumes "parseNetnames (json_netnames module) (P\<lparr>currentModule := newModule name\<rparr>) = Inr Pn"
      and "parsePorts (json_ports module) Pn = Inr Pp"
      and "parseCells (json_cells module) Pp = Inr Pc"
  shows "(ports (currentModule Pc) = [] \<and> nodes (currentModule Pc) = []) \<longleftrightarrow>
         (json_ports module = [] \<and> json_cells module = [])"
proof -
  have n: "ports (currentModule Pn) = [] \<and> nodes (currentModule Pn) = []"
    using parseNetnames_keeps[OF assms(1)] by (simp add: newModule_def)
  have p: "length (ports (currentModule Pp)) = length (json_ports module) \<and>
           nodes (currentModule Pp) = []"
    using parsePorts_keeps[OF assms(2)] n by simp
  have c: "length (nodes (currentModule Pc)) = length (json_cells module) \<and>
           length (ports (currentModule Pc)) = length (json_ports module)"
    using parseCells_keeps[OF assms(3)] p by simp
  show ?thesis using c by (metis length_0_conv)
qed


text \<open>
  C5, as the code has it. When the modules before a module are read without error and
  that module fails a check, \<open>parse\<close> ends with the exception of the check: the module
  and all the modules after it are not processed, and the diagram holds what the earlier
  modules put there. For a module whose netnames and ports are read without error: a
  cell after cells that are read without error throws a text that names the cell when
  its type is not a string, when its port directions and connections are not empty and
  differ in number, and when its port directions or its connections are empty. When all
  cells are read, a module without ports and cells throws \<open>Module has no Ports or Nodes\<close>
  with the name of the module; a module with a port or a cell whose paths are invalid
  after materialization, resolution, stitching and pruning throws
  \<open>Module has no Paths or Nodes\<close> with the name of the module; an empty module is refused
  by one of these two checks; and every other module is accepted: it is added to the
  diagram, and made its top module when it has the attribute \<open>top\<close>.
\<close>

theorem parse_aborts_at_first_error:
  "(parseModules before Pstart = Inr P \<and> \<not> json_blackbox module \<and>
    parseModule name module P = Inl e \<longrightarrow>
      parse (before @ (name, module) # rest) Pstart = Inl (e, diagram P)) \<and>
   (parseNetnames (json_netnames module) (P\<lparr>currentModule := newModule name\<rparr>) = Inr Pn \<and>
    parsePorts (json_ports module) Pn = Inr Pp \<longrightarrow>
      (json_cells module = cellsBefore @ (cellName, cell) # cellsAfter \<and>
       parseCells cellsBefore Pp = Inr Pb \<longrightarrow>
         (json_type cell = None \<longrightarrow>
            parseModule name module P =
              Inl (''Error while parsing '' @ cellName @ '': Cell type is not valid'')) \<and>
         (json_type cell \<noteq> None \<and>
          json_port_directions cell \<noteq> [] \<and> json_connections cell \<noteq> [] \<and>
          length (json_port_directions cell) \<noteq> length (json_connections cell) \<longrightarrow>
            parseModule name module P =
              Inl (''Error while parsing '' @ cellName @
                   '': the number of port direction definitions does not match the number of port connections'')) \<and>
         (json_type cell \<noteq> None \<and>
          (json_port_directions cell = [] \<or> json_connections cell = []) \<longrightarrow>
            parseModule name module P =
              Inl (''Error while parsing '' @ cellName @
                   '': No port directions or connections found''))) \<and>
      (parseCells (json_cells module) Pp = Inr Pc \<longrightarrow>
         (json_ports module = [] \<and> json_cells module = [] \<longrightarrow>
            parseModule name module P =
              Inl (''Error while parsing '' @ name @ '': Module has no Ports or Nodes'')) \<and>
         (\<not> (json_ports module = [] \<and> json_cells module = []) \<and>
          hasModuleInvalidPaths
            (currentModule (removeUnconnectedPaths (connectDiagramConnections (replaceConstBits Pc)))) \<longrightarrow>
            parseModule name module P =
              Inl (''Error while parsing '' @ name @ '': Module has no Paths or Nodes'')) \<and>
         (isEmpty
            (currentModule (removeUnconnectedPaths (connectDiagramConnections (replaceConstBits Pc)))) \<longrightarrow>
            parseModule name module P =
              Inl (''Error while parsing '' @ name @ '': Module has no Ports or Nodes'') \<or>
            parseModule name module P =
              Inl (''Error while parsing '' @ name @ '': Module has no Paths or Nodes'')) \<and>
         (\<not> (json_ports module = [] \<and> json_cells module = []) \<and>
          \<not> hasModuleInvalidPaths
            (currentModule (removeUnconnectedPaths (connectDiagramConnections (replaceConstBits Pc)))) \<longrightarrow>
            parseModule name module P =
              Inr ((removeUnconnectedPaths (connectDiagramConnections (replaceConstBits Pc)))
                   \<lparr>diagram :=
                      (if json_top module
                       then (addModule
                               (currentModule (removeUnconnectedPaths (connectDiagramConnections (replaceConstBits Pc))))
                               (diagram (removeUnconnectedPaths (connectDiagramConnections (replaceConstBits Pc)))))
                            \<lparr>topModule :=
                               Some (length (modules (diagram (removeUnconnectedPaths (connectDiagramConnections (replaceConstBits Pc))))))\<rparr>
                       else addModule
                              (currentModule (removeUnconnectedPaths (connectDiagramConnections (replaceConstBits Pc))))
                              (diagram (removeUnconnectedPaths (connectDiagramConnections (replaceConstBits Pc)))))\<rparr>))))"
proof -
  have abort: "parse (before @ (name, module) # rest) Pstart = Inl (e, diagram P)"
    if a: "parseModules before Pstart = Inr P \<and> \<not> json_blackbox module \<and>
           parseModule name module P = Inl e"
  proof -
    have "parseModules (before @ (name, module) # rest) Pstart =
          parseModules ((name, module) # rest) P"
      using a by (simp add: parseModules_append)
    then show ?thesis using a by (simp add: parse_def)
  qed
  have cells: "parseModule name module P = parseCells ((cellName, cell) # cellsAfter) Pb"
    if "parseNetnames (json_netnames module) (P\<lparr>currentModule := newModule name\<rparr>) = Inr Pn"
       "parsePorts (json_ports module) Pn = Inr Pp"
       "json_cells module = cellsBefore @ (cellName, cell) # cellsAfter"
       "parseCells cellsBefore Pp = Inr Pb"
       "\<exists>e. parseCells ((cellName, cell) # cellsAfter) Pb = Inl e"
  proof -
    have "parseCells (json_cells module) Pp = parseCells ((cellName, cell) # cellsAfter) Pb"
      using that(3,4) by (simp add: parseCells_append)
    then show ?thesis using that(1,2,5) by (auto simp: parseModule_def)
  qed
  have val: "parseModule name module P = validateAndAdd name (json_top module) Pc"
    if "parseNetnames (json_netnames module) (P\<lparr>currentModule := newModule name\<rparr>) = Inr Pn"
       "parsePorts (json_ports module) Pn = Inr Pp"
       "parseCells (json_cells module) Pp = Inr Pc"
    using that by (simp add: parseModule_def)
  have emp: "(ports (currentModule Pc) = [] \<and> nodes (currentModule Pc) = []) \<longleftrightarrow>
             (json_ports module = [] \<and> json_cells module = [])"
    if "parseNetnames (json_netnames module) (P\<lparr>currentModule := newModule name\<rparr>) = Inr Pn"
       "parsePorts (json_ports module) Pn = Inr Pp"
       "parseCells (json_cells module) Pp = Inr Pc"
    using that by (rule read_module_empty)
  show ?thesis
    apply (intro conjI impI)
    subgoal by (rule abort)
    subgoal by (subst cells; simp)
    subgoal by (subst cells; auto)
    subgoal by (subst cells; auto)
    subgoal using val emp by (simp add: validateAndAdd_def)
    subgoal using val emp by (simp add: validateAndAdd_def Let_def)
    subgoal using val emp isEmpty_invalid
      by (auto simp: validateAndAdd_def Let_def)
    subgoal using val emp isEmpty_invalid
      by (auto simp: validateAndAdd_def Let_def addModule_def)
    done
qed


theorem parse_aborts_at_first_error_witness:
  "parseModules [(''m2'', scenarioA_json)] newParser = Inr scenarioA_parsed \<and>
   \<not> json_blackbox emptyModule_json \<and>
   parseModule ''m3'' emptyModule_json scenarioA_parsed =
     Inl ''Error while parsing m3: Module has no Ports or Nodes'' \<and>
   parse ([(''m2'', scenarioA_json)] @ (''m3'', emptyModule_json) # [(''m4'', scenarioA_json)]) newParser =
     Inl (''Error while parsing m3: Module has no Ports or Nodes'',
          \<lparr>modules = [scenarioA_module], topModule = Some 0\<rparr>) \<and>
   json_type untypedCell = None \<and>
   parseModule ''top'' (cellModule_json [(''g1'', untypedCell)]) newParser =
     Inl ''Error while parsing g1: Cell type is not valid'' \<and>
   length (json_port_directions lopsidedCell) \<noteq> length (json_connections lopsidedCell) \<and>
   parseModule ''top'' (cellModule_json [(''g1'', lopsidedCell)]) newParser =
     Inl ''Error while parsing g1: the number of port direction definitions does not match the number of port connections'' \<and>
   json_connections bareCell = [] \<and>
   parseModule ''top'' (cellModule_json [(''g1'', bareCell)]) newParser =
     Inl ''Error while parsing g1: No port directions or connections found'' \<and>
   json_ports emptyModule_json = [] \<and> json_cells emptyModule_json = [] \<and>
   isEmpty (currentModule (removeUnconnectedPaths (connectDiagramConnections
              (replaceConstBits (newParser\<lparr>currentModule := newModule ''m1''\<rparr>))))) \<and>
   parseModule ''m1'' emptyModule_json newParser =
     Inl ''Error while parsing m1: Module has no Ports or Nodes'' \<and>
   json_ports danglingInput_json \<noteq> [] \<and>
   hasModuleInvalidPaths (currentModule (removeUnconnectedPaths (connectDiagramConnections
              (replaceConstBits danglingInput_ports)))) \<and>
   parseModule ''top'' danglingInput_json newParser =
     Inl ''Error while parsing top: Module has no Paths or Nodes'' \<and>
   json_ports scenarioA_json \<noteq> [] \<and>
   \<not> hasModuleInvalidPaths (currentModule (removeUnconnectedPaths (connectDiagramConnections
              (replaceConstBits scenarioA_read)))) \<and>
   parseModule ''m2'' scenarioA_json newParser = Inr scenarioA_parsed"
proof -
  have a1: "parseModules [(''m2'', scenarioA_json)] newParser = Inr scenarioA_parsed"
    by code_simp
  have a2: "\<not> json_blackbox emptyModule_json"
    by code_simp
  have a3: "parseModule ''m3'' emptyModule_json scenarioA_parsed =
     Inl ''Error while parsing m3: Module has no Ports or Nodes''"
    by code_simp
  have a: "parse ([(''m2'', scenarioA_json)] @ (''m3'', emptyModule_json) # [(''m4'', scenarioA_json)]) newParser =
     Inl (''Error while parsing m3: Module has no Ports or Nodes'',
          \<lparr>modules = [scenarioA_module], topModule = Some 0\<rparr>)"
    using parse_aborts_at_first_error
            [where before = "[(''m2'', scenarioA_json)]" and Pstart = newParser
               and P = scenarioA_parsed and module = emptyModule_json and name = "''m3''"
               and e = "''Error while parsing m3: Module has no Ports or Nodes''"
               and rest = "[(''m4'', scenarioA_json)]", THEN conjunct1]
          a1 a2 a3
    by (simp add: scenarioA_parsed_def)
  have n: "parseNetnames [] (newParser\<lparr>currentModule := newModule ''top''\<rparr>) =
             Inr (newParser\<lparr>currentModule := newModule ''top''\<rparr>)"
    by simp
  have cp: "parsePorts (json_ports (cellModule_json cs)) (newParser\<lparr>currentModule := newModule ''top''\<rparr>) =
              Inr cellModule_ports" for cs
    unfolding cellModule_json_def by code_simp
  have cn: "json_netnames (cellModule_json cs) = []" for cs
    by (simp add: cellModule_json_def)
  have cc: "json_cells (cellModule_json [c]) = [] @ c # []" for c
    by (simp add: cellModule_json_def)
  have b0: "parseCells [] cellModule_ports = Inr cellModule_ports"
    by simp
  have b1: "json_type untypedCell = None"
    by (simp add: untypedCell_def)
  have b: "parseModule ''top'' (cellModule_json [(''g1'', untypedCell)]) newParser =
     Inl ''Error while parsing g1: Cell type is not valid''"
    using parse_aborts_at_first_error
            [where P = newParser and name = "''top''"
               and module = "cellModule_json [(''g1'', untypedCell)]"
               and Pn = "newParser\<lparr>currentModule := newModule ''top''\<rparr>"
               and Pp = cellModule_ports and cellsBefore = "[]" and cellName = "''g1''"
               and cell = untypedCell and cellsAfter = "[]" and Pb = cellModule_ports,
             THEN conjunct2]
          n cp cn cc b0 b1
    by simp
  have c1: "json_type lopsidedCell \<noteq> None \<and>
            json_port_directions lopsidedCell \<noteq> [] \<and> json_connections lopsidedCell \<noteq> [] \<and>
            length (json_port_directions lopsidedCell) \<noteq> length (json_connections lopsidedCell)"
    by (simp add: lopsidedCell_def)
  have c: "parseModule ''top'' (cellModule_json [(''g1'', lopsidedCell)]) newParser =
     Inl ''Error while parsing g1: the number of port direction definitions does not match the number of port connections''"
    using parse_aborts_at_first_error
            [where P = newParser and name = "''top''"
               and module = "cellModule_json [(''g1'', lopsidedCell)]"
               and Pn = "newParser\<lparr>currentModule := newModule ''top''\<rparr>"
               and Pp = cellModule_ports and cellsBefore = "[]" and cellName = "''g1''"
               and cell = lopsidedCell and cellsAfter = "[]" and Pb = cellModule_ports,
             THEN conjunct2]
          n cp cn cc b0 c1
    by simp
  have g1: "json_type bareCell \<noteq> None \<and> json_connections bareCell = []"
    by (simp add: bareCell_def)
  have g: "parseModule ''top'' (cellModule_json [(''g1'', bareCell)]) newParser =
     Inl ''Error while parsing g1: No port directions or connections found''"
    using parse_aborts_at_first_error
            [where P = newParser and name = "''top''"
               and module = "cellModule_json [(''g1'', bareCell)]"
               and Pn = "newParser\<lparr>currentModule := newModule ''top''\<rparr>"
               and Pp = cellModule_ports and cellsBefore = "[]" and cellName = "''g1''"
               and cell = bareCell and cellsAfter = "[]" and Pb = cellModule_ports,
             THEN conjunct2]
          n cp cn cc b0 g1
    by simp
  have d0: "json_netnames emptyModule_json = [] \<and> json_ports emptyModule_json = [] \<and>
            json_cells emptyModule_json = []"
    by (simp add: emptyModule_json_def)
  have d1: "isEmpty (currentModule (removeUnconnectedPaths (connectDiagramConnections
              (replaceConstBits (newParser\<lparr>currentModule := newModule ''m1''\<rparr>)))))"
    by code_simp
  have d: "parseModule ''m1'' emptyModule_json newParser =
     Inl ''Error while parsing m1: Module has no Ports or Nodes''"
    using parse_aborts_at_first_error
            [where P = newParser and name = "''m1''" and module = emptyModule_json
               and Pn = "newParser\<lparr>currentModule := newModule ''m1''\<rparr>"
               and Pp = "newParser\<lparr>currentModule := newModule ''m1''\<rparr>"
               and Pc = "newParser\<lparr>currentModule := newModule ''m1''\<rparr>",
             THEN conjunct2]
          d0
    by simp
  have e0: "json_netnames danglingInput_json = [] \<and> json_cells danglingInput_json = [] \<and>
            json_ports danglingInput_json \<noteq> []"
    by (simp add: danglingInput_json_def)
  have e1: "parsePorts (json_ports danglingInput_json) (newParser\<lparr>currentModule := newModule ''top''\<rparr>) =
              Inr danglingInput_ports"
    by code_simp
  have e2: "hasModuleInvalidPaths (currentModule (removeUnconnectedPaths (connectDiagramConnections
              (replaceConstBits danglingInput_ports))))"
    by code_simp
  have e: "parseModule ''top'' danglingInput_json newParser =
     Inl ''Error while parsing top: Module has no Paths or Nodes''"
    using parse_aborts_at_first_error
            [where P = newParser and name = "''top''" and module = danglingInput_json
               and Pn = "newParser\<lparr>currentModule := newModule ''top''\<rparr>"
               and Pp = danglingInput_ports and Pc = danglingInput_ports,
             THEN conjunct2]
          n e0 e1 e2
    by simp
  have f0: "json_ports scenarioA_json \<noteq> [] \<and> json_cells scenarioA_json = [] \<and> json_top scenarioA_json"
    by (simp add: scenarioA_json_def)
  have f1: "parseNetnames (json_netnames scenarioA_json) (newParser\<lparr>currentModule := newModule ''m2''\<rparr>) =
              Inr scenarioA_netnames"
    by code_simp
  have f2: "parsePorts (json_ports scenarioA_json) scenarioA_netnames = Inr scenarioA_read"
    by code_simp
  have f3: "\<not> hasModuleInvalidPaths (currentModule (removeUnconnectedPaths (connectDiagramConnections
              (replaceConstBits scenarioA_read))))"
    by code_simp
  have f4: "removeUnconnectedPaths (connectDiagramConnections (replaceConstBits scenarioA_read)) =
              \<lparr>diagram = \<lparr>modules = [], topModule = None\<rparr>,
               currentModule = scenarioA_module, constToNonConstPortBits = []\<rparr>"
    by code_simp
  have f: "parseModule ''m2'' scenarioA_json newParser = Inr scenarioA_parsed"
    using parse_aborts_at_first_error
            [where P = newParser and name = "''m2''" and module = scenarioA_json
               and Pn = scenarioA_netnames and Pp = scenarioA_read and Pc = scenarioA_read,
             THEN conjunct2]
          f0 f1 f2 f3
    by (simp add: f4 scenarioA_parsed_def addModule_def)
  show ?thesis
    using a1 a2 a3 a b1 b c1 c g1 g d0 d1 d e0 e2 e f0 f3 f by blast
qed

text \<open>
  The module \<open>m2\<close> is accepted when it is parsed alone; after the module \<open>m1\<close>, which
  has no ports and no cells, it is not read at all: the exception of \<open>m1\<close> ends the call
  and the diagram is empty. The failure of one module does not leave its siblings
  unaffected, against C5. In the module \<open>top\<close>, the cell \<open>g1\<close> without a type and the
  cell \<open>g1\<close> with two directions and one connection throw a text that names the cell; the
  name of the module does not occur in it, against C5.
\<close>

theorem parse_sibling_counterexample:
  "parse [(''m1'', emptyModule_json), (''m2'', scenarioA_json)] newParser =
     Inl (''Error while parsing m1: Module has no Ports or Nodes'',
          \<lparr>modules = [], topModule = None\<rparr>) \<and>
   parse [(''m2'', scenarioA_json)] newParser =
     Inr \<lparr>diagram = \<lparr>modules = [scenarioA_module], topModule = Some 0\<rparr>,
          currentModule = scenarioA_module, constToNonConstPortBits = []\<rparr> \<and>
   parse [(''top'', cellModule_json [(''g1'', untypedCell)])] newParser =
     Inl (''Error while parsing g1: Cell type is not valid'',
          \<lparr>modules = [], topModule = None\<rparr>) \<and>
   \<not> searchFound ''Error while parsing g1: Cell type is not valid'' ''top'' \<and>
   parse [(''top'', cellModule_json [(''g1'', lopsidedCell)])] newParser =
     Inl (''Error while parsing g1: the number of port direction definitions does not match the number of port connections'',
          \<lparr>modules = [], topModule = None\<rparr>) \<and>
   \<not> searchFound
        ''Error while parsing g1: the number of port direction definitions does not match the number of port connections''
        ''top''"
  by code_simp

section \<open>The signal stitcher\<close>

lemma pathObjects_updatePort [simp]: "pathObjects (updatePort f r m) = pathObjects m"
  by (cases r) simp_all

lemma paths_updatePort [simp]: "paths (updatePort f r m) = paths m"
  by (cases r) simp_all

lemma netnames_updatePort [simp]: "netnames (updatePort f r m) = netnames m"
  by (cases r) simp_all




section \<open>Every sink is attached to at most one path\<close>



lemma getPort_paths_update [simp]: "getPort (m\<lparr>paths := x\<rparr>) r = getPort m r"
  by (cases r) simp_all

lemma getPort_pathObjects_update [simp]: "getPort (m\<lparr>pathObjects := x\<rparr>) r = getPort m r"
  by (cases r) simp_all

lemma port_bits_setPath [simp]: "port_bits (setPath a p) = port_bits p"
  by (simp add: setPath_def)

















section \<open>Termination of the resolver\<close>

lemma claimDest_empty: "destPorts st = [] \<Longrightarrow> claimDest toSolve st = st"
  by (simp add: claimDest_def)

lemma claimDest_fields [simp]:
  "srcPorts (claimDest toSolve st) = srcPorts st"
  "splitInfo (claimDest toSolve st) = splitInfo st"
  "joinInfo (claimDest toSolve st) = joinInfo st"
  by (simp_all add: claimDest_def Let_def)

lemma destPorts_noteJoin [simp]: "destPorts (noteJoin toSolve q st) = destPorts st"
  by (simp add: noteJoin_def)

lemma createSplitJoin_loop_empty_pool:
  assumes "destPorts st = []"
  shows "createSplitJoin_loop toSolve (t # tasks) st =
     (if int (length toSolve) \<le> startIdx t \<or> endIdx t - startIdx t < 1
      then createSplitJoin_loop toSolve tasks st
      else if querryBits t \<in> set (srcPorts st)
      then createSplitJoin_loop toSolve (remainderTask toSolve t # tasks)
             (noteJoin toSolve (querryBits t) st)
      else if indexOfContains (srcPorts st) (querryBits t) \<noteq> -1
      then createSplitJoin_loop toSolve (remainderTask toSolve t # tasks)
             ((noteJoin toSolve (querryBits t) st)
                \<lparr>srcPorts := srcPorts st @ [querryBits t],
                 splitInfo := addToMap (splitInfo st)
                     (srcPorts st ! nat (indexOfContains (srcPorts st) (querryBits t)))
                     (querryBits t)\<rparr>)
      else createSplitJoin_loop toSolve (shrinkTask toSolve t # tasks) st)"
  by (subst createSplitJoin_loop.simps) (simp add: claimDest_empty[OF assms] assms Let_def)

lemma createSplitJoin_loop_keeps_empty_pool:
  "destPorts st = [] \<Longrightarrow> destPorts (createSplitJoin_loop toSolve tasks st) = []"
proof (induction toSolve tasks st rule: createSplitJoin_loop.induct)
  case (1 toSolve st)
  then show ?case by (simp add: createSplitJoin_loop.simps)
next
  case (2 toSolve current tasks st)
  have e: "st = claimDest toSolve st" using "2.prems" by (simp add: claimDest_empty)
  note E = createSplitJoin_loop_empty_pool[OF "2.prems", of toSolve current tasks]
  show ?case
  proof (cases "int (length toSolve) \<le> startIdx current \<or> endIdx current - startIdx current < 1")
    case True
    from "2.IH"(1)[OF e True "2.prems"] show ?thesis using E True by simp
  next
    case g: False
    show ?thesis
    proof (cases "querryBits current \<in> set (srcPorts st)")
      case True
      have "destPorts (noteJoin toSolve (querryBits current) st) = []" using "2.prems" by simp
      from "2.IH"(2)[OF e g True this] show ?thesis using E g True by simp
    next
      case ns: False
      show ?thesis
      proof (cases "indexOfContains (srcPorts st) (querryBits current) \<noteq> -1")
        case True
        have "destPorts ((noteJoin toSolve (querryBits current) st)
                \<lparr>srcPorts := srcPorts st @ [querryBits current],
                 splitInfo := addToMap (splitInfo st)
                     (srcPorts st ! nat (indexOfContains (srcPorts st) (querryBits current)))
                     (querryBits current)\<rparr>) = []"
          using "2.prems" by simp
        from "2.IH"(3)[OF e g ns True this] show ?thesis using E g ns True by simp
      next
        case False
        have nd: "\<not> indexOfContains (destPorts st) (querryBits current) \<noteq> -1"
          using "2.prems" by simp
        from "2.IH"(7)[OF e g ns False nd "2.prems"] show ?thesis using E g ns False by simp
      qed
    qed
  qed
qed


lemma remainderTask_advances:
  "\<not> (int (length toSolve) \<le> startIdx t \<or> endIdx t - startIdx t < 1) \<Longrightarrow>
   startIdx t < startIdx (remainderTask toSolve t)"
  by (simp add: remainderTask_def)

lemma length_mid_nonneg:
  "0 \<le> pos \<Longrightarrow> pos < int (length xs) \<Longrightarrow> 1 \<le> len \<Longrightarrow>
   int (length (mid xs pos len)) = min len (int (length xs) - pos)"
  by (auto simp: mid_def Let_def)

lemma length_mid_zero_len:
  "0 \<le> pos \<Longrightarrow> pos < int (length xs) \<Longrightarrow> length (mid xs pos 0) = 0"
  by (auto simp: mid_def Let_def)

lemma shrinkTask_shortens:
  assumes g: "\<not> (int (length toSolve) \<le> startIdx t \<or> endIdx t - startIdx t < 1)"
      and s: "0 \<le> startIdx t"
      and q: "querryBits t = mid toSolve (startIdx t) (endIdx t - startIdx t)"
  shows "startIdx (shrinkTask toSolve t) = startIdx t \<and>
         length (querryBits (shrinkTask toSolve t)) < length (querryBits t)"
proof -
  let ?L = "int (length toSolve)"
  have lq: "int (length (querryBits t)) = min (endIdx t - startIdx t) (?L - startIdx t)"
    unfolding q using g s by (intro length_mid_nonneg) simp_all
  then have q1: "1 \<le> int (length (querryBits t))" using g by simp
  have "int (length (mid toSolve (startIdx t) (int (length (querryBits t)) - 1))) =
        int (length (querryBits t)) - 1"
  proof (cases "int (length (querryBits t)) = 1")
    case True
    then show ?thesis using length_mid_zero_len[of "startIdx t" toSolve] g s by simp
  next
    case False
    then have "1 \<le> int (length (querryBits t)) - 1" using q1 by simp
    from length_mid_nonneg[OF s _ this, of toSolve] g lq show ?thesis by simp
  qed
  then show ?thesis using q1 by (simp add: shrinkTask_def)
qed

lemma createSplitJoin_loop_unresolved_bit:
  assumes g: "\<not> (int (length toSolve) \<le> startIdx t \<or> endIdx t - startIdx t < 1)"
      and one: "length (querryBits t) = 1"
      and n1: "querryBits t \<notin> set (srcPorts st)"
      and n2: "indexOfContains (srcPorts st) (querryBits t) = -1"
      and n3: "indexOfContains (destPorts (claimDest toSolve st)) (querryBits t) = -1"
  shows "createSplitJoin_loop toSolve [t] st = claimDest toSolve (claimDest toSolve st)"
proof -
  have 1: "createSplitJoin_loop toSolve [t] st =
           createSplitJoin_loop toSolve [shrinkTask toSolve t] (claimDest toSolve st)"
    using g n1 n2 n3 by (subst createSplitJoin_loop.simps) (simp add: Let_def)
  have "endIdx (shrinkTask toSolve t) - startIdx (shrinkTask toSolve t) < 1"
    using one by (simp add: shrinkTask_def)
  then have 2: "createSplitJoin_loop toSolve [shrinkTask toSolve t] (claimDest toSolve st) =
           createSplitJoin_loop toSolve [] (claimDest toSolve (claimDest toSolve st))"
    by (subst createSplitJoin_loop.simps) (simp add: Let_def)
  show ?thesis unfolding 1 2 by (simp add: createSplitJoin_loop.simps)
qed

text \<open>
  C4. The resolver terminates on every input: every chain of calls of the loop function
  (the iterations of the worklist, and the nested call) is finite, whatever the sink, the
  stack and the pools are. A task that passes the guard is followed by a task that starts
  strictly later (after a match) or, when nothing matches, by a task of the same start
  whose query is strictly shorter (for the tasks the function builds, whose start is not
  negative and whose query is the slice its indices name); either way the weight that
  bounds the run goes down. Against an empty pool of sinks the condition of the third
  case is false, the pool stays empty for the whole run, and an iteration is one of the
  other cases, with no nested call: the nested call, which starts on an empty pool,
  recurses no further. A query of one bit that matches nothing is dropped in two
  iterations; nothing is recorded for it and nothing fails.
\<close>

theorem createSplitJoin_terminates:
  "createSplitJoin_loop_dom (toSolve, tasks, st) \<and>
   (\<not> (int (length toSolve) \<le> startIdx t \<or> endIdx t - startIdx t < 1) \<longrightarrow>
      startIdx t < startIdx (remainderTask toSolve t) \<and>
      taskWeight toSolve (remainderTask toSolve t) < taskWeight toSolve t \<and>
      taskWeight toSolve (shrinkTask toSolve t) < taskWeight toSolve t) \<and>
   (\<not> (int (length toSolve) \<le> startIdx t \<or> endIdx t - startIdx t < 1) \<and>
    0 \<le> startIdx t \<and> querryBits t = mid toSolve (startIdx t) (endIdx t - startIdx t) \<longrightarrow>
      startIdx (shrinkTask toSolve t) = startIdx t \<and>
      length (querryBits (shrinkTask toSolve t)) < length (querryBits t)) \<and>
   (destPorts st = [] \<longrightarrow>
      indexOfContains (destPorts (claimDest toSolve st)) (querryBits t) = -1 \<and>
      destPorts (createSplitJoin_loop toSolve tasks st) = [] \<and>
      createSplitJoin_loop toSolve (t # tasks) st =
        (if int (length toSolve) \<le> startIdx t \<or> endIdx t - startIdx t < 1
         then createSplitJoin_loop toSolve tasks st
         else if querryBits t \<in> set (srcPorts st)
         then createSplitJoin_loop toSolve (remainderTask toSolve t # tasks)
                (noteJoin toSolve (querryBits t) st)
         else if indexOfContains (srcPorts st) (querryBits t) \<noteq> -1
         then createSplitJoin_loop toSolve (remainderTask toSolve t # tasks)
                ((noteJoin toSolve (querryBits t) st)
                   \<lparr>srcPorts := srcPorts st @ [querryBits t],
                    splitInfo := addToMap (splitInfo st)
                        (srcPorts st ! nat (indexOfContains (srcPorts st) (querryBits t)))
                        (querryBits t)\<rparr>)
         else createSplitJoin_loop toSolve (shrinkTask toSolve t # tasks) st)) \<and>
   (\<not> (int (length toSolve) \<le> startIdx t \<or> endIdx t - startIdx t < 1) \<and>
    length (querryBits t) = 1 \<and> querryBits t \<notin> set (srcPorts st) \<and>
    indexOfContains (srcPorts st) (querryBits t) = -1 \<and>
    indexOfContains (destPorts (claimDest toSolve st)) (querryBits t) = -1 \<longrightarrow>
      createSplitJoin_loop toSolve [t] st = claimDest toSolve (claimDest toSolve st) \<and>
      srcPorts (createSplitJoin_loop toSolve [t] st) = srcPorts st \<and>
      splitInfo (createSplitJoin_loop toSolve [t] st) = splitInfo st \<and>
      joinInfo (createSplitJoin_loop toSolve [t] st) = joinInfo st)"
proof (intro conjI impI)
  show "createSplitJoin_loop_dom (toSolve, tasks, st)"
    using createSplitJoin_loop_total by blast
next
  assume g: "\<not> (int (length toSolve) \<le> startIdx t \<or> endIdx t - startIdx t < 1)"
  show "startIdx t < startIdx (remainderTask toSolve t)" by (rule remainderTask_advances[OF g])
  show "taskWeight toSolve (remainderTask toSolve t) < taskWeight toSolve t"
    by (rule taskWeight_remainder[OF g])
  show "taskWeight toSolve (shrinkTask toSolve t) < taskWeight toSolve t"
    by (rule taskWeight_shrink[OF g])
next
  assume a: "\<not> (int (length toSolve) \<le> startIdx t \<or> endIdx t - startIdx t < 1) \<and>
    0 \<le> startIdx t \<and> querryBits t = mid toSolve (startIdx t) (endIdx t - startIdx t)"
  then have sh: "startIdx (shrinkTask toSolve t) = startIdx t \<and>
      length (querryBits (shrinkTask toSolve t)) < length (querryBits t)"
    by (intro shrinkTask_shortens) simp_all
  show "startIdx (shrinkTask toSolve t) = startIdx t" using sh by simp
  show "length (querryBits (shrinkTask toSolve t)) < length (querryBits t)" using sh by simp
next
  assume d: "destPorts st = []"
  show "indexOfContains (destPorts (claimDest toSolve st)) (querryBits t) = -1"
    using d by (simp add: claimDest_empty)
  show "destPorts (createSplitJoin_loop toSolve tasks st) = []"
    by (rule createSplitJoin_loop_keeps_empty_pool[OF d])
  show "createSplitJoin_loop toSolve (t # tasks) st =
        (if int (length toSolve) \<le> startIdx t \<or> endIdx t - startIdx t < 1
         then createSplitJoin_loop toSolve tasks st
         else if querryBits t \<in> set (srcPorts st)
         then createSplitJoin_loop toSolve (remainderTask toSolve t # tasks)
                (noteJoin toSolve (querryBits t) st)
         else if indexOfContains (srcPorts st) (querryBits t) \<noteq> -1
         then createSplitJoin_loop toSolve (remainderTask toSolve t # tasks)
                ((noteJoin toSolve (querryBits t) st)
                   \<lparr>srcPorts := srcPorts st @ [querryBits t],
                    splitInfo := addToMap (splitInfo st)
                        (srcPorts st ! nat (indexOfContains (srcPorts st) (querryBits t)))
                        (querryBits t)\<rparr>)
         else createSplitJoin_loop toSolve (shrinkTask toSolve t # tasks) st)"
    by (rule createSplitJoin_loop_empty_pool[OF d])
next
  assume a: "\<not> (int (length toSolve) \<le> startIdx t \<or> endIdx t - startIdx t < 1) \<and>
    length (querryBits t) = 1 \<and> querryBits t \<notin> set (srcPorts st) \<and>
    indexOfContains (srcPorts st) (querryBits t) = -1 \<and>
    indexOfContains (destPorts (claimDest toSolve st)) (querryBits t) = -1"
  then have u: "createSplitJoin_loop toSolve [t] st = claimDest toSolve (claimDest toSolve st)"
    by (intro createSplitJoin_loop_unresolved_bit) simp_all
  show "createSplitJoin_loop toSolve [t] st = claimDest toSolve (claimDest toSolve st)" by (rule u)
  show "srcPorts (createSplitJoin_loop toSolve [t] st) = srcPorts st" unfolding u by simp
  show "splitInfo (createSplitJoin_loop toSolve [t] st) = splitInfo st" unfolding u by simp
  show "joinInfo (createSplitJoin_loop toSolve [t] st) = joinInfo st" unfolding u by simp
qed

theorem createSplitJoin_terminates_witness:
  "\<not> (int (length [''n1'', ''n9'']) \<le> startIdx scenarioE_task \<or>
      endIdx scenarioE_task - startIdx scenarioE_task < 1) \<and>
   0 \<le> startIdx scenarioE_task \<and>
   querryBits scenarioE_task =
     mid [''n1'', ''n9''] (startIdx scenarioE_task) (endIdx scenarioE_task - startIdx scenarioE_task) \<and>
   destPorts scenarioE_pools = [] \<and>
   length (querryBits scenarioE_task) = 1 \<and>
   querryBits scenarioE_task \<notin> set (srcPorts scenarioE_pools) \<and>
   indexOfContains (srcPorts scenarioE_pools) (querryBits scenarioE_task) = -1 \<and>
   indexOfContains (destPorts (claimDest [''n1'', ''n9''] scenarioE_pools)) (querryBits scenarioE_task) = -1 \<and>
   startIdx scenarioE_task < startIdx (remainderTask [''n1'', ''n9''] scenarioE_task) \<and>
   length (querryBits (shrinkTask [''n1'', ''n9''] scenarioE_task)) < length (querryBits scenarioE_task) \<and>
   createSplitJoin_loop [''n1'', ''n9''] [scenarioE_task] scenarioE_pools = scenarioE_pools \<and>
   createSplitJoin
     \<lparr>srcPorts = [[''n1'']], destPorts = [[''n1'', ''n9'']], splitInfo = [], joinInfo = []\<rparr>
     [''n1'', ''n9''] 0 2 =
     \<lparr>srcPorts = [[''n1'']], destPorts = [], splitInfo = [],
      joinInfo = [([''n1'', ''n9''], [[''n1'']])]\<rparr>"
proof -
  have g: "\<not> (int (length [''n1'', ''n9'']) \<le> startIdx scenarioE_task \<or>
      endIdx scenarioE_task - startIdx scenarioE_task < 1)"
    by code_simp
  have s: "0 \<le> startIdx scenarioE_task" by code_simp
  have q: "querryBits scenarioE_task =
     mid [''n1'', ''n9''] (startIdx scenarioE_task) (endIdx scenarioE_task - startIdx scenarioE_task)"
    by code_simp
  have d: "destPorts scenarioE_pools = []" by code_simp
  have one: "length (querryBits scenarioE_task) = 1" by code_simp
  have n1: "querryBits scenarioE_task \<notin> set (srcPorts scenarioE_pools)" by code_simp
  have n2: "indexOfContains (srcPorts scenarioE_pools) (querryBits scenarioE_task) = -1"
    by code_simp
  have n3: "indexOfContains (destPorts (claimDest [''n1'', ''n9''] scenarioE_pools))
              (querryBits scenarioE_task) = -1"
    by code_simp
  have c: "claimDest [''n1'', ''n9''] (claimDest [''n1'', ''n9''] scenarioE_pools) = scenarioE_pools"
    by code_simp
  have e: "createSplitJoin
     \<lparr>srcPorts = [[''n1'']], destPorts = [[''n1'', ''n9'']], splitInfo = [], joinInfo = []\<rparr>
     [''n1'', ''n9''] 0 2 =
     \<lparr>srcPorts = [[''n1'']], destPorts = [], splitInfo = [],
      joinInfo = [([''n1'', ''n9''], [[''n1'']])]\<rparr>"
    by code_simp
  note T = createSplitJoin_terminates
             [where toSolve = "[''n1'', ''n9'']" and tasks = "[]" and st = scenarioE_pools
                and t = scenarioE_task]
  have c1: "startIdx scenarioE_task < startIdx (remainderTask [''n1'', ''n9''] scenarioE_task)"
    using T g by blast
  have c2: "length (querryBits (shrinkTask [''n1'', ''n9''] scenarioE_task)) <
            length (querryBits scenarioE_task)"
    using T g s q by blast
  have c3: "createSplitJoin_loop [''n1'', ''n9''] [scenarioE_task] scenarioE_pools =
            claimDest [''n1'', ''n9''] (claimDest [''n1'', ''n9''] scenarioE_pools)"
    using T g one n1 n2 n3 by blast
  show ?thesis using g s q d one n1 n2 n3 c1 c2 c3[unfolded c] e by blast
qed

section \<open>The constant materializer\<close>

subsection \<open>Numerals\<close>














subsection \<open>The largest bit number\<close>

text \<open>
  \<open>constCount\<close> is the number of constant bits of a bit sequence, and \<open>allPorts\<close> lists
  the ports that \<open>Module::getMaxBitNumber\<close> scans: the ports of the module and the ports
  of its nodes. No numeric bit of these ports is above the result.
\<close>

definition constCount :: "QStringList \<Rightarrow> int" where
  "constCount bits = int (length (filter isConstBit bits))"

definition allPorts :: "Module \<Rightarrow> Port list" where
  "allPorts m = ports m @ concat (map node_ports (nodes m))"





lemma Port_getMaxBitNumber_nonneg: "0 \<le> Port_getMaxBitNumber p"
proof -
  have "(a::int) \<le> fold (\<lambda>b maxBitNumber.
             if b \<noteq> ''x'' \<and> b \<noteq> ''0'' \<and> b \<noteq> ''1''
             then max maxBitNumber (toULong b) else maxBitNumber) bs a" for a bs
    by (induction bs arbitrary: a) (auto intro: order_trans[OF max.cobounded1])
  then show ?thesis unfolding Port_getMaxBitNumber_def by blast
qed





subsection \<open>One port\<close>

text \<open>
  \<open>materialize k bits\<close> is what the pass is to write into a port with the bits \<open>bits\<close>
  when the counter stands at \<open>k\<close>: every constant bit is replaced by the numeral of the
  next value of the counter.
\<close>

fun materialize :: "int \<Rightarrow> QStringList \<Rightarrow> QStringList" where
  "materialize k [] = []"
| "materialize k (b # bs) =
     (if isConstBit b then QString_number (k + 1) # materialize (k + 1) bs
      else b # materialize k bs)"



lemma constCount_le_length: "constCount bs \<le> int (length bs)"
  unfolding constCount_def by (simp add: length_filter_le)



lemma length_materialize [simp]: "length (materialize k bs) = length bs"
  by (induction bs arbitrary: k) simp_all








text \<open>
  \<open>validRef m r\<close>: the reference \<open>r\<close> names a port of \<open>m\<close>. \<open>constRunPorts name k runs\<close>
  lists the CONST ports that the pass is to add for the constant runs of a port called
  \<open>name\<close> when the counter stands at \<open>k\<close>.
\<close>

fun validRef :: "Module \<Rightarrow> PortRef \<Rightarrow> bool" where
  "validRef m (ModulePort i) = (i < length (ports m))"
| "validRef m (NodePort n i) = (n < length (nodes m) \<and> i < length (node_ports (nodes m ! n)))"

definition appendPorts :: "Port list \<Rightarrow> Module \<Rightarrow> Module" where
  "appendPorts cs m = m\<lparr>ports := ports m @ cs\<rparr>"






lemma validRef_updatePort [simp]: "validRef (updatePort f r m) q = validRef m q"
proof (cases r; cases q)
  fix n i n' i' assume r: "r = NodePort n i" and q: "q = NodePort n' i'"
  show ?thesis
    unfolding r q
    by (cases "n < length (nodes m)"; cases "n' = n"; simp)
qed auto






lemma appendPorts_Nil [simp]: "appendPorts [] m = m"
  by (simp add: appendPorts_def)








subsection \<open>All ports\<close>






lemma length_ports_updatePort [simp]: "length (ports (updatePort f x M)) = length (ports M)"
  by (cases x) simp_all




lemma validRef_allPorts: "validRef m r \<Longrightarrow> getPort m r \<in> set (allPorts m)"
proof (cases r)
  case (ModulePort i)
  assume "validRef m r"
  then show ?thesis using ModulePort by (simp add: allPorts_def)
next
  case (NodePort n i)
  assume "validRef m r"
  then have n: "nodes m ! n \<in> set (nodes m)"
    and i: "node_ports (nodes m ! n) ! i \<in> set (node_ports (nodes m ! n))"
    using NodePort by simp_all
  show ?thesis unfolding NodePort allPorts_def using n i by auto
qed
















end
